theory Spec2Isabelle
  imports Complex_Main "HOL-Library.AList"
begin

section \<open>Python values\<close>

text \<open>
  The two scripts (\<^verbatim>\<open>normalise_strava.py\<close> and \<^verbatim>\<open>preprocess_tcx.py\<close>) work on
  dynamically typed values. The metadata of one activity is a Python \<^verbatim>\<open>dict\<close>, modelled
  as an association list (insertion order kept, as Python does). In the model of
  \<^verbatim>\<open>normalise_strava.py\<close> a Python \<^verbatim>\<open>float\<close> is the real number that is its exact
  value, and every float operation rounds its result (section \<open>Floating point\<close>
  below). In the model of \<^verbatim>\<open>preprocess_tcx.py\<close>, which never rounds to a decimal and
  leaves its sums to numpy, a number is the exact result of the arithmetic; the float that
  the script returns is that result up to the rounding of the float operations. The
  non-finite floats are outside the model.
\<close>

datatype error = ParseError | AttributeError | ValueError | TypeError | IndexError

datatype pyval =
    PNone
  | PBool bool
  | PInt int
  | PFloat real
  | PStr string
  | PList "pyval list"
  | PDict "(string \<times> pyval) list"

type_synonym meta = "(string \<times> pyval) list"

text \<open>Truth value testing, as \<^verbatim>\<open>if x:\<close> does it.\<close>

fun truthy :: "pyval \<Rightarrow> bool" where
  "truthy PNone = False"
| "truthy (PBool b) = b"
| "truthy (PInt i) = (i \<noteq> 0)"
| "truthy (PFloat r) = (r \<noteq> 0)"
| "truthy (PStr s) = (s \<noteq> [])"
| "truthy (PList l) = (l \<noteq> [])"
| "truthy (PDict d) = (d \<noteq> [])"

text \<open>\<^verbatim>\<open>d.get(k)\<close>: the value, or \<^verbatim>\<open>None\<close> for a missing key.\<close>

definition dget :: "meta \<Rightarrow> string \<Rightarrow> pyval" where
  "dget d k = (case map_of d k of None \<Rightarrow> PNone | Some v \<Rightarrow> v)"

text \<open>\<^verbatim>\<open>d.setdefault(k, v)\<close>: only a missing key is set.\<close>

definition setdefault :: "string \<Rightarrow> pyval \<Rightarrow> meta \<Rightarrow> meta" where
  "setdefault k v d = (case map_of d k of None \<Rightarrow> AList.update k v d | Some _ \<Rightarrow> d)"

text \<open>\<^verbatim>\<open>int(x)\<close> on a float truncates towards zero.\<close>

definition py_trunc :: "real \<Rightarrow> int" where
  "py_trunc x = (if 0 \<le> x then \<lfloor>x\<rfloor> else \<lceil>x\<rceil>)"

section \<open>Floating point\<close>

text \<open>
  Every binary64 operation returns its exact result rounded to the nearest number with
  a significand of 53 bits, a tie going to the even significand. \<open>fl\<close> is that
  rounding: \<open>binade a\<close> is the exponent \<open>e\<close> with \<^verbatim>\<open>2**e <= a < 2**(e+1)\<close>, and the
  value is rounded to a multiple of \<^verbatim>\<open>2**(e-52)\<close>. The exponent is not bounded here, so
  overflow and underflow are outside the model. The float operations of
  \<^verbatim>\<open>normalise_strava.py\<close>, whose results are rounded to one decimal or tested against
  zero, are modelled one by one with \<open>fl\<close>. The arithmetic of \<^verbatim>\<open>preprocess_tcx.py\<close>
  (numpy reductions, whose order of additions the script does not fix, and totals that
  are never rounded to a decimal) is modelled on the exact values, without the
  intermediate rounding.
\<close>

function up :: "real \<Rightarrow> int" where
  "up x = (if x < 2 then 0 else up (x / 2) + 1)"
  by pat_completeness auto
termination
proof (relation "measure (\<lambda>x. nat \<lfloor>x\<rfloor>)")
  show "wf (measure (\<lambda>x::real. nat \<lfloor>x\<rfloor>))" by simp
next
  fix x :: real
  assume a: "\<not> x < 2"
  then have "x / 2 \<le> x - 1" by simp
  then have "\<lfloor>x / 2\<rfloor> \<le> \<lfloor>x - 1\<rfloor>" by (rule floor_mono)
  moreover have "1 \<le> \<lfloor>x - 1\<rfloor>" using a by (simp add: le_floor_iff)
  ultimately show "(x / 2, x) \<in> measure (\<lambda>x. nat \<lfloor>x\<rfloor>)"
    by simp
qed

function down :: "real \<Rightarrow> int" where
  "down x = (if 1 \<le> x \<or> x \<le> 0 then 0 else down (x * 2) - 1)"
  by pat_completeness auto
termination
proof (relation "measure (\<lambda>x. nat \<lceil>1 / x\<rceil>)")
  show "wf (measure (\<lambda>x::real. nat \<lceil>1 / x\<rceil>))" by simp
next
  fix x :: real
  assume a: "\<not> (1 \<le> x \<or> x \<le> 0)"
  then have x: "0 < x" "x < 1" by simp_all
  then have b: "1 < 1 / x" by simp
  then have c: "2 \<le> \<lceil>1 / x\<rceil>" by (simp add: le_ceiling_iff)
  have "1 / (x * 2) \<le> of_int \<lceil>1 / x\<rceil> / 2"
    using le_of_int_ceiling [of "1 / x"] by simp
  also have "\<dots> \<le> of_int (\<lceil>1 / x\<rceil> - 1)"
    using c by simp
  finally have "\<lceil>1 / (x * 2)\<rceil> \<le> \<lceil>1 / x\<rceil> - 1"
    by (rule ceiling_le)
  with c x show "(x * 2, x) \<in> measure (\<lambda>x. nat \<lceil>1 / x\<rceil>)"
    by simp
qed

text \<open>
  The two recursions are unfolded only where a proof names them.
\<close>

declare up.simps [simp del] down.simps [simp del]

definition binade :: "real \<Rightarrow> int" where
  "binade a = (if 1 \<le> a then up a else down a)"

definition round_half_even :: "real \<Rightarrow> int" where
  "round_half_even y =
     (let f = \<lfloor>y\<rfloor>; d = y - of_int f in
      if d < 1 / 2 then f else if 1 / 2 < d then f + 1 else if even f then f else f + 1)"

definition fl :: "real \<Rightarrow> real" where
  "fl x =
     (if x = 0 then 0
      else (let u = 2 powi (binade \<bar>x\<bar> - 52)
            in sgn x * of_int (round_half_even (\<bar>x\<bar> / u)) * u))"

text \<open>
  \<^verbatim>\<open>round(x, 1)\<close> on a float \<open>x\<close>: Python rounds the exact binary value of \<open>x\<close>
  to the nearest multiple of 1/10, a tie going to the even digit (a float is a tie only
  when its value is one exactly, as 0.25 is; the float nearest to 0.35 lies below 0.35
  and goes to 0.3). The result is kept as that decimal number, which is what
  \<^verbatim>\<open>json.dump\<close> prints for the float that \<^verbatim>\<open>round\<close> returns; the scripts store
  it and do not compute with it.
\<close>

definition py_round1 :: "real \<Rightarrow> real" where
  "py_round1 x = of_int (round_half_even (x * 10)) / 10"

text \<open>
  \<^verbatim>\<open>sum(xs)\<close> over floats, adding from the left, each addition rounded, as CPython
  does up to version 3.11. (From version 3.12 on CPython compensates the rounding errors
  inside \<^verbatim>\<open>sum\<close>, which can change the last bit of a sum of three or more terms; no
  property below depends on how the terms are added.)
\<close>

definition py_sum :: "real list \<Rightarrow> real" where
  "py_sum xs = foldl (\<lambda>a x. fl (a + x)) 0 xs"

section \<open>Strings\<close>

text \<open>
  Characters are bytes here, and the string methods are modelled on ASCII text only:
  on a string of characters below 128 (\<open>ascii\<close>), \<^verbatim>\<open>str.lower\<close>, \<^verbatim>\<open>str.strip\<close> and
  \<^verbatim>\<open>str.title\<close> act as below. On other strings Python's methods follow the Unicode
  tables (more white space, more cased letters, case mappings that change the length),
  which these definitions do not describe; the properties of the sport normalizer
  below are stated for ASCII strings.
\<close>

definition ascii :: "string \<Rightarrow> bool" where
  "ascii s = list_all (\<lambda>c. (of_char c :: nat) < 128) s"

definition is_upper :: "char \<Rightarrow> bool" where
  "is_upper c = (65 \<le> (of_char c :: nat) \<and> (of_char c :: nat) \<le> 90)"

definition is_lower :: "char \<Rightarrow> bool" where
  "is_lower c = (97 \<le> (of_char c :: nat) \<and> (of_char c :: nat) \<le> 122)"

definition is_cased :: "char \<Rightarrow> bool" where
  "is_cased c = (is_upper c \<or> is_lower c)"

definition is_space :: "char \<Rightarrow> bool" where
  "is_space c = ((of_char c :: nat) \<in> set [9, 10, 11, 12, 13, 28, 29, 30, 31, 32])"

definition to_lower :: "char \<Rightarrow> char" where
  "to_lower c = (if is_upper c then char_of ((of_char c :: nat) + 32) else c)"

definition to_upper :: "char \<Rightarrow> char" where
  "to_upper c = (if is_lower c then char_of ((of_char c :: nat) - 32) else c)"

definition str_lower :: "string \<Rightarrow> string" where
  "str_lower s = map to_lower s"

definition str_strip :: "string \<Rightarrow> string" where
  "str_strip s = rev (dropWhile is_space (rev (dropWhile is_space s)))"

text \<open>
  \<^verbatim>\<open>str.title\<close>: a cased character is upper-cased when the character before it is
  uncased (or there is none) and lower-cased otherwise; uncased characters stay.
\<close>

fun title_from :: "bool \<Rightarrow> string \<Rightarrow> string" where
  "title_from prev [] = []"
| "title_from prev (c # cs) =
     (if is_cased c then (if prev then to_lower c else to_upper c) # title_from True cs
      else c # title_from False cs)"

definition str_title :: "string \<Rightarrow> string" where
  "str_title s = title_from False s"

text \<open>\<^verbatim>\<open>s.endswith(t)\<close> and \<^verbatim>\<open>t in s\<close>.\<close>

definition endswith :: "string \<Rightarrow> string \<Rightarrow> bool" where
  "endswith s t = (length t \<le> length s \<and> drop (length s - length t) s = t)"

fun contains :: "string \<Rightarrow> string \<Rightarrow> bool" where
  "contains [] t = (t = [])"
| "contains (c # cs) t = (take (length t) (c # cs) = t \<or> contains cs t)"

section \<open>Sport normalizer\<close>

text \<open>
  \<^verbatim>\<open>normalize_sport\<close> of \<^verbatim>\<open>normalise_strava.py\<close>. \<^verbatim>\<open>raw_sport or ""\<close> is the
  argument when it is truthy; calling \<^verbatim>\<open>.strip()\<close> or \<^verbatim>\<open>.title()\<close> on a value that is
  not a string raises \<^verbatim>\<open>AttributeError\<close>.
\<close>

definition py_or :: "pyval \<Rightarrow> pyval \<Rightarrow> pyval" where
  "py_or a b = (if truthy a then a else b)"

fun py_title :: "pyval \<Rightarrow> error + string" where
  "py_title (PStr x) = Inr (str_title x)"
| "py_title _ = Inl AttributeError"

definition normalize_sport :: "pyval \<Rightarrow> error + string" where
  "normalize_sport raw_sport =
     (case py_or raw_sport (PStr []) of
        PStr t \<Rightarrow>
          (let s = str_lower (str_strip t) in
           if s \<in> set [''cycling'', ''bike'', ''biking''] then Inr ''Biking''
           else if s \<in> set [''running''] then Inr ''Running''
           else if truthy raw_sport then py_title raw_sport else Inr ''Unknown'')
      | _ \<Rightarrow> Inl AttributeError)"

text \<open>An argument of the normalizer that, when it is a string, is an ASCII string.\<close>

definition ascii_val :: "pyval \<Rightarrow> bool" where
  "ascii_val v = (case v of PStr s \<Rightarrow> ascii s | _ \<Rightarrow> True)"

section \<open>Errors and lexical conversion\<close>

text \<open>
  A raised exception is the value \<open>Inl e\<close>. A comprehension or a loop stops at the
  first element that raises.
\<close>

definition ebind :: "error + 'a \<Rightarrow> ('a \<Rightarrow> error + 'b) \<Rightarrow> error + 'b" where
  "ebind r f = (case r of Inl e \<Rightarrow> Inl e | Inr x \<Rightarrow> f x)"

fun emap :: "('a \<Rightarrow> error + 'b) \<Rightarrow> 'a list \<Rightarrow> error + 'b list" where
  "emap f [] = Inr []"
| "emap f (x # xs) =
     (case f x of Inl e \<Rightarrow> Inl e
      | Inr y \<Rightarrow> (case emap f xs of Inl e \<Rightarrow> Inl e | Inr ys \<Rightarrow> Inr (y # ys)))"

fun efold :: "('s \<Rightarrow> 'a \<Rightarrow> error + 's) \<Rightarrow> 'a list \<Rightarrow> 's \<Rightarrow> error + 's" where
  "efold f [] s = Inr s"
| "efold f (x # xs) s = (case f s x of Inl e \<Rightarrow> Inl e | Inr s' \<Rightarrow> efold f xs s')"

text \<open>
  The built-in conversions \<^verbatim>\<open>float(s)\<close> and \<^verbatim>\<open>int(s)\<close> of a string are parameters
  of the model (\<open>pf\<close> and \<open>pn\<close> below), \<open>None\<close> where Python raises
  \<^verbatim>\<open>ValueError\<close>; \<open>pf s\<close> is the exact value of the float that \<^verbatim>\<open>float(s)\<close>
  returns. Converting \<^verbatim>\<open>None\<close> raises \<^verbatim>\<open>TypeError\<close>.
\<close>

type_synonym float_of = "string \<Rightarrow> real option"
type_synonym int_of = "string \<Rightarrow> int option"

definition py_conv :: "(string \<Rightarrow> 'a option) \<Rightarrow> string \<Rightarrow> error + 'a" where
  "py_conv p s = (case p s of None \<Rightarrow> Inl ValueError | Some v \<Rightarrow> Inr v)"

definition py_conv_opt :: "(string \<Rightarrow> 'a option) \<Rightarrow> string option \<Rightarrow> error + 'a" where
  "py_conv_opt p t = (case t of None \<Rightarrow> Inl TypeError | Some s \<Rightarrow> py_conv p s)"

section \<open>XML documents\<close>

text \<open>
  An element of \<^verbatim>\<open>xml.etree.ElementTree\<close>: tag, attributes, text (\<open>etext\<close>) and children. All
  paths of both scripts name elements of the TrainingCenterDatabase namespace; \<open>tag\<close>
  is the local name of an element of that namespace.
\<close>

datatype elem =
  Elem (tag: string) (attrib: "(string \<times> string) list") (etext: "string option")
    (children: "elem list")

text \<open>All elements beneath an element, in document order.\<close>

fun descendants :: "elem \<Rightarrow> elem list" where
  "descendants (Elem t a x cs) = concat (map (\<lambda>c. c # descendants c) cs)"

definition first_of :: "'a list \<Rightarrow> 'a option" where
  "first_of xs = (case xs of [] \<Rightarrow> None | x # _ \<Rightarrow> Some x)"

text \<open>\<^verbatim>\<open>e.findall(".//T")\<close> and \<^verbatim>\<open>e.find(".//T")\<close>.\<close>

definition findall_desc :: "string \<Rightarrow> elem \<Rightarrow> elem list" where
  "findall_desc t e = filter (\<lambda>d. tag d = t) (descendants e)"

definition find_desc :: "string \<Rightarrow> elem \<Rightarrow> elem option" where
  "find_desc t e = first_of (findall_desc t e)"

text \<open>\<^verbatim>\<open>e.find("T")\<close>, \<^verbatim>\<open>e.find("A/B")\<close> and \<^verbatim>\<open>e.find(".//A/B")\<close>.\<close>

definition childs :: "string \<Rightarrow> elem \<Rightarrow> elem list" where
  "childs t e = filter (\<lambda>c. tag c = t) (children e)"

definition find_child :: "string \<Rightarrow> elem \<Rightarrow> elem option" where
  "find_child t e = first_of (childs t e)"

definition find_path :: "string \<Rightarrow> string \<Rightarrow> elem \<Rightarrow> elem option" where
  "find_path a b e = first_of (concat (map (childs b) (childs a e)))"

definition find_desc_path :: "string \<Rightarrow> string \<Rightarrow> elem \<Rightarrow> elem option" where
  "find_desc_path a b e = first_of (concat (map (childs b) (findall_desc a e)))"

text \<open>
  \<^verbatim>\<open>findtext(path, default)\<close>: the default when no element matches, the empty string
  when the element has no text.
\<close>

definition text_or :: "elem option \<Rightarrow> string option \<Rightarrow> string option" where
  "text_or r d = (case r of None \<Rightarrow> d
                  | Some c \<Rightarrow> Some (case etext c of None \<Rightarrow> [] | Some s \<Rightarrow> s))"

text \<open>\<^verbatim>\<open>e.get(key)\<close> and \<^verbatim>\<open>e.get(key, default)\<close> read an attribute.\<close>

definition attr_get :: "elem \<Rightarrow> string \<Rightarrow> string option" where
  "attr_get e k = map_of (attrib e) k"

definition attr_get_default :: "elem \<Rightarrow> string \<Rightarrow> string \<Rightarrow> string" where
  "attr_get_default e k d = (case map_of (attrib e) k of None \<Rightarrow> d | Some v \<Rightarrow> v)"

text \<open>\<^verbatim>\<open>float(r.text)\<close> for the result \<open>r\<close> of a \<^verbatim>\<open>find\<close>.\<close>

definition conv_text :: "(string \<Rightarrow> 'a option) \<Rightarrow> elem option \<Rightarrow> error + 'a" where
  "conv_text p r = (case r of None \<Rightarrow> Inl AttributeError | Some c \<Rightarrow> py_conv_opt p (etext c))"

definition opt_str :: "string option \<Rightarrow> pyval" where
  "opt_str t = (case t of None \<Rightarrow> PNone | Some s \<Rightarrow> PStr s)"

definition opt_float :: "real option \<Rightarrow> pyval" where
  "opt_float t = (case t of None \<Rightarrow> PNone | Some r \<Rightarrow> PFloat r)"

definition opt_int :: "int option \<Rightarrow> pyval" where
  "opt_int t = (case t of None \<Rightarrow> PNone | Some i \<Rightarrow> PInt i)"

section \<open>Paths\<close>

definition RAW_DIR :: string where
  "RAW_DIR = ''raw''"

definition path_join :: "string \<Rightarrow> string \<Rightarrow> string" where
  "path_join d f = d @ ''/'' @ f"

definition basename :: "string \<Rightarrow> string" where
  "basename p = rev (takeWhile (\<lambda>c. c \<noteq> CHR ''/'') (rev p))"

type_synonym point = "real \<times> real"

section \<open>Elevation gain\<close>

text \<open>
  The running altitude of \<^verbatim>\<open>parse_tcx\<close> and \<^verbatim>\<open>parse_fit\<close> in
  \<^verbatim>\<open>normalise_strava.py\<close>:
  \<^verbatim>\<open>if prev_elev is not None and e > prev_elev: elev_gain += e - prev_elev\<close>, then
  \<^verbatim>\<open>prev_elev = e\<close>. The subtraction and the addition are float operations.
\<close>

definition elev_step :: "real option \<times> real \<Rightarrow> real \<Rightarrow> real option \<times> real" where
  "elev_step st e =
     (case st of (prev_elev, elev_gain) \<Rightarrow>
        (Some e, (case prev_elev of None \<Rightarrow> elev_gain
                  | Some p \<Rightarrow> if p < e then fl (elev_gain + fl (e - p)) else elev_gain)))"

text \<open>
  \<^verbatim>\<open>np.diff(alts)\<close> and \<^verbatim>\<open>np.sum(np.diff(alts)[np.diff(alts) > 0])\<close> of
  \<^verbatim>\<open>preprocess_tcx.py\<close>: the sum of the strictly positive consecutive differences.
\<close>

definition np_diff :: "real list \<Rightarrow> real list" where
  "np_diff xs = map (\<lambda>(a, b). b - a) (zip xs (tl xs))"

definition positive_gain :: "real list \<Rightarrow> real" where
  "positive_gain xs = sum_list (filter (\<lambda>d. 0 < d) (np_diff xs))"

text \<open>\<^verbatim>\<open>max(xs)\<close> of a list that is not empty (the callers test that).\<close>

definition py_max :: "int list \<Rightarrow> int" where
  "py_max xs = fold max (tl xs) (hd xs)"

text \<open>
  The mean of integers, as a real number. \<^verbatim>\<open>sum(xs) / len(xs)\<close> on Python integers
  is the float nearest to it, \<open>fl (mean xs)\<close>.
\<close>

definition mean :: "int list \<Rightarrow> real" where
  "mean xs = real_of_int (sum_list xs) / real (length xs)"

section \<open>TCX extractor of \<^verbatim>\<open>normalise_strava.py\<close>\<close>

text \<open>
  The per-lap heart-rate values:
  \<^verbatim>\<open>[int(l.find(P).text) for l in laps if l.find(P) is not None]\<close> with
  \<^verbatim>\<open>P = ".//t:AverageHeartRateBpm/t:Value"\<close> or the maximum.
\<close>

definition lap_hr :: "int_of \<Rightarrow> string \<Rightarrow> elem list \<Rightarrow> error + int list" where
  "lap_hr pn name laps =
     emap (\<lambda>l. conv_text pn (find_desc_path name ''Value'' l))
       (filter (\<lambda>l. find_desc_path name ''Value'' l \<noteq> None) laps)"

text \<open>
  One round of the trackpoint loop. The state is \<open>(pts, (prev_elev, elev_gain))\<close>; a
  trackpoint without \<^verbatim>\<open>Position\<close> or without \<^verbatim>\<open>Time\<close> is skipped whole
  (\<^verbatim>\<open>continue\<close>), its altitude included.
\<close>

definition tcx_trackpoint ::
  "float_of \<Rightarrow> point list \<times> (real option \<times> real) \<Rightarrow> elem
     \<Rightarrow> error + (point list \<times> (real option \<times> real))" where
  "tcx_trackpoint pf st tp =
     (case st of (pts, el) \<Rightarrow>
      let t = find_child ''Time'' tp;
          pos = find_child ''Position'' tp;
          ele = text_or (find_child ''AltitudeMeters'' tp) None
      in (case pos of None \<Rightarrow> Inr st
          | Some p \<Rightarrow>
            (case t of None \<Rightarrow> Inr st
             | Some _ \<Rightarrow>
               ebind (conv_text pf (find_child ''LatitudeDegrees'' p)) (\<lambda>lat.
               ebind (conv_text pf (find_child ''LongitudeDegrees'' p)) (\<lambda>lon.
               (case ele of None \<Rightarrow> Inr (pts @ [(lon, lat)], el)
                | Some a \<Rightarrow>
                    ebind (py_conv pf a) (\<lambda>e. Inr (pts @ [(lon, lat)], elev_step el e))))))))"

definition parse_tcx :: "float_of \<Rightarrow> int_of \<Rightarrow> string \<Rightarrow> elem \<Rightarrow> error + (meta \<times> point list)" where
  "parse_tcx pf pn path xroot =
     (case find_desc ''Activity'' xroot of None \<Rightarrow> Inl AttributeError
      | Some activity \<Rightarrow>
        ebind (normalize_sport (PStr (attr_get_default activity ''Sport'' ''Unknown''))) (\<lambda>sport.
        let laps = findall_desc ''Lap'' xroot in
        ebind (emap (\<lambda>l. py_conv pf (attr_get_default l ''TotalTimeSeconds'' ''0'')) laps) (\<lambda>times.
        ebind (emap (\<lambda>l. py_conv pf (attr_get_default l ''DistanceMeters'' ''0'')) laps) (\<lambda>dists.
        ebind (emap (\<lambda>l. py_conv_opt pn (text_or (find_child ''Calories'' l) (Some ''0''))) laps) (\<lambda>cals.
        ebind (lap_hr pn ''AverageHeartRateBpm'' laps) (\<lambda>avg_hrs.
        ebind (lap_hr pn ''MaximumHeartRateBpm'' laps) (\<lambda>max_hrs.
        ebind (efold (tcx_trackpoint pf) (findall_desc ''Trackpoint'' xroot) ([], (None, 0))) (\<lambda>fin.
        (case laps of [] \<Rightarrow> Inl IndexError
         | lap0 # _ \<Rightarrow>
           let total_time = py_sum times;
               distance = py_sum dists;
               calories = sum_list cals;
               avg_hr = (if avg_hrs \<noteq> [] then Some (fl (mean avg_hrs)) else None);
               max_hr = (if max_hrs \<noteq> [] then Some (py_max max_hrs) else None);
               elev_gain = snd (snd fin);
               avg_pace_s = (if distance \<noteq> 0 then Some (fl (total_time / fl (distance / 1000)))
                             else None)
           in Inr ([(''activityId'', PStr (basename path)),
                    (''sport'', PStr sport),
                    (''start_time'', opt_str (attr_get lap0 ''StartTime'')),
                    (''duration_s'', PFloat total_time),
                    (''distance_m'', PFloat distance),
                    (''calories'', PInt calories),
                    (''avg_hr'', (case avg_hr of None \<Rightarrow> PNone
                                  | Some a \<Rightarrow> if a \<noteq> 0 then PFloat (py_round1 a) else PNone)),
                    (''max_hr'', opt_int max_hr),
                    (''elevation_gain_m'', PFloat (py_round1 elev_gain)),
                    (''avg_pace_s'', (case avg_pace_s of None \<Rightarrow> PNone
                                      | Some a \<Rightarrow> if a \<noteq> 0 then PFloat (py_round1 a) else PNone))],
                   fst fin))))))))))"

section \<open>GPX extractor\<close>

text \<open>
  What \<^verbatim>\<open>gpxpy.parse\<close> returns: tracks of segments of points, and the planar length
  \<^verbatim>\<open>gpx.length_2d()\<close> that the library computes. A point's time is kept as the text
  \<^verbatim>\<open>isoformat()\<close> gives, \<open>None\<close> when the point has no time.
\<close>

record gpx_point =
  longitude :: real
  latitude :: real
  time :: "string option"

record gpx_doc =
  tracks :: "gpx_point list list list"
  length_2d :: real

definition parse_gpx :: "string \<Rightarrow> gpx_doc \<Rightarrow> error + (meta \<times> point list)" where
  "parse_gpx path gpx =
     (let pts = map (\<lambda>p. (longitude p, latitude p)) (concat (concat (tracks gpx))) in
      case tracks gpx of [] \<Rightarrow> Inl IndexError
      | tr # _ \<Rightarrow>
        (case tr of [] \<Rightarrow> Inl IndexError
         | seg # _ \<Rightarrow>
           (case seg of [] \<Rightarrow> Inl IndexError
            | p0 # _ \<Rightarrow>
              let start = time p0;
                  distance = length_2d gpx;
                  raw_sport = (if contains (str_lower path) ''run'' then ''Running'' else ''Biking'')
              in ebind (normalize_sport (PStr raw_sport)) (\<lambda>sport.
                 (case start of None \<Rightarrow> Inl AttributeError
                  | Some stamp \<Rightarrow>
                    Inr ([(''activityId'', PStr (basename path)),
                          (''sport'', PStr sport),
                          (''start_time'', PStr stamp),
                          (''duration_s'', PNone),
                          (''distance_m'', PFloat distance),
                          (''calories'', PNone),
                          (''avg_hr'', PNone),
                          (''max_hr'', PNone),
                          (''elevation_gain_m'', PNone),
                          (''avg_pace_s'', PNone)], pts))))))"

section \<open>FIT extractor\<close>

text \<open>
  What \<^verbatim>\<open>fitparse\<close> yields: the values of each \<^verbatim>\<open>record\<close> message and of each
  \<^verbatim>\<open>session\<close> message, a field that the message lacks being \<open>None\<close>. Positions are
  integers (semicircles), a timestamp is kept as its \<^verbatim>\<open>isoformat()\<close> text, the sport of
  a session is a string or, for a value the profile does not name, a number.
\<close>

record fit_record =
  position_lat :: "int option"
  position_long :: "int option"
  timestamp :: "string option"
  distance :: "real option"
  heart_rate :: "int option"
  enhanced_altitude :: "real option"
  altitude :: "real option"
  cadence :: "int option"

record fit_session =
  sport :: pyval
  total_elapsed_time :: "real option"
  total_calories :: "int option"

record fit_file =
  records :: "fit_record list"
  sessions :: "fit_session list"

text \<open>\<^verbatim>\<open>if vals.get(k):\<close> on a number: present and not zero.\<close>

definition present_nz :: "'a::zero option \<Rightarrow> bool" where
  "present_nz v = (case v of None \<Rightarrow> False | Some x \<Rightarrow> x \<noteq> 0)"

text \<open>\<^verbatim>\<open>a or b\<close> on two optional numbers.\<close>

definition or_opt :: "real option \<Rightarrow> real option \<Rightarrow> real option" where
  "or_opt a b = (if present_nz a then a else b)"

record fit_loop =
  l_pts :: "point list"
  l_meta :: meta
  l_hr_samples :: "int list"
  l_elev :: "real option \<times> real"

definition fit_keys :: "string list" where
  "fit_keys = [''activityId'', ''sport'', ''start_time'', ''duration_s'', ''distance_m'',
     ''calories'', ''avg_hr'', ''max_hr'', ''elevation_gain_m'', ''avg_pace_s'', ''cadence'']"

text \<open>
  One round of the loop over the \<^verbatim>\<open>record\<close> messages: the six statements of the
  loop body, one function each, in the order of the source.
\<close>

definition rec_position :: "fit_record \<Rightarrow> fit_loop \<Rightarrow> fit_loop" where
  "rec_position vals st =
     (case position_lat vals of None \<Rightarrow> st
      | Some lat \<Rightarrow>
        (case position_long vals of None \<Rightarrow> st
         | Some lon \<Rightarrow>
           if lat \<noteq> 0 \<and> lon \<noteq> 0
           then st\<lparr>l_pts := l_pts st @
                  [(of_int lon * (180 / 2 ^ 31), of_int lat * (180 / 2 ^ 31))]\<rparr>
           else st))"

definition rec_timestamp :: "fit_record \<Rightarrow> fit_loop \<Rightarrow> fit_loop" where
  "rec_timestamp vals st =
     (case timestamp vals of None \<Rightarrow> st
      | Some ts \<Rightarrow>
        if \<not> truthy (dget (l_meta st) ''start_time'')
        then st\<lparr>l_meta := AList.update ''start_time'' (PStr ts) (l_meta st)\<rparr>
        else st)"

definition rec_distance :: "fit_record \<Rightarrow> fit_loop \<Rightarrow> fit_loop" where
  "rec_distance vals st =
     (if present_nz (distance vals)
      then st\<lparr>l_meta := AList.update ''distance_m'' (opt_float (distance vals)) (l_meta st)\<rparr>
      else st)"

definition rec_heart_rate :: "fit_record \<Rightarrow> fit_loop \<Rightarrow> fit_loop" where
  "rec_heart_rate vals st =
     (case heart_rate vals of None \<Rightarrow> st
      | Some h \<Rightarrow> if h \<noteq> 0 then st\<lparr>l_hr_samples := l_hr_samples st @ [h]\<rparr> else st)"

definition rec_altitude :: "fit_record \<Rightarrow> fit_loop \<Rightarrow> fit_loop" where
  "rec_altitude vals st =
     (case or_opt (enhanced_altitude vals) (altitude vals) of None \<Rightarrow> st
      | Some ele \<Rightarrow> st\<lparr>l_elev := elev_step (l_elev st) ele\<rparr>)"

definition rec_cadence :: "fit_record \<Rightarrow> fit_loop \<Rightarrow> fit_loop" where
  "rec_cadence vals st =
     (if present_nz (cadence vals)
      then st\<lparr>l_meta := AList.update ''cadence'' (opt_int (cadence vals)) (l_meta st)\<rparr>
      else st)"

definition fit_record_step :: "fit_loop \<Rightarrow> fit_record \<Rightarrow> fit_loop" where
  "fit_record_step st vals =
     rec_cadence vals (rec_altitude vals (rec_heart_rate vals
       (rec_distance vals (rec_timestamp vals (rec_position vals st)))))"

text \<open>
  One round of the loop over the \<^verbatim>\<open>session\<close> messages: its three statements, in the
  order of the source. Only the first can raise (in \<^verbatim>\<open>normalize_sport\<close>).
\<close>

definition session_sport :: "fit_session \<Rightarrow> meta \<Rightarrow> error + meta" where
  "session_sport v m =
     (if truthy (sport v) \<and> \<not> truthy (dget m ''sport'')
      then ebind (normalize_sport (sport v)) (\<lambda>s. Inr (AList.update ''sport'' (PStr s) m))
      else Inr m)"

definition session_duration :: "fit_session \<Rightarrow> meta \<Rightarrow> meta" where
  "session_duration v m =
     (if present_nz (total_elapsed_time v) \<and> \<not> truthy (dget m ''duration_s'')
      then AList.update ''duration_s'' (opt_float (total_elapsed_time v)) m else m)"

definition session_calories :: "fit_session \<Rightarrow> meta \<Rightarrow> meta" where
  "session_calories v m =
     (if present_nz (total_calories v) \<and> \<not> truthy (dget m ''calories'')
      then AList.update ''calories'' (opt_int (total_calories v)) m else m)"

definition fit_session_step :: "meta \<Rightarrow> fit_session \<Rightarrow> error + meta" where
  "fit_session_step m v =
     ebind (session_sport v m) (\<lambda>m1. Inr (session_calories v (session_duration v m1)))"

text \<open>
  The pace of \<^verbatim>\<open>parse_fit\<close>:
  \<^verbatim>\<open>round(meta["duration_s"] / (meta["distance_m"] / 1000), 1)\<close>, computed when both
  values are truthy. Both are floats whenever they are set.
\<close>

definition fit_pace :: "meta \<Rightarrow> error + meta" where
  "fit_pace m =
     (if truthy (dget m ''distance_m'') \<and> truthy (dget m ''duration_s'') then
        (case dget m ''duration_s'' of
           PFloat t \<Rightarrow>
             (case dget m ''distance_m'' of
                PFloat d \<Rightarrow>
                  Inr (AList.update ''avg_pace_s'' (PFloat (py_round1 (fl (t / fl (d / 1000))))) m)
              | _ \<Rightarrow> Inl TypeError)
         | _ \<Rightarrow> Inl TypeError)
      else Inr m)"

text \<open>The statements after the two loops.\<close>

definition fit_finish :: "fit_loop \<Rightarrow> meta \<Rightarrow> error + (meta \<times> point list)" where
  "fit_finish st m1 =
     (let hr_samples = l_hr_samples st;
          elev_gain = snd (l_elev st);
          m2 = (if hr_samples \<noteq> []
                then AList.update ''max_hr'' (PInt (py_max hr_samples))
                       (AList.update ''avg_hr'' (PFloat (py_round1 (fl (mean hr_samples)))) m1)
                else m1);
          m3 = (if elev_gain \<noteq> 0
                then AList.update ''elevation_gain_m'' (PFloat (py_round1 elev_gain)) m2 else m2)
      in ebind (fit_pace m3) (\<lambda>m4. Inr (m4, l_pts st)))"

definition fit_start :: "string \<Rightarrow> fit_loop" where
  "fit_start path =
     \<lparr>l_pts = [],
      l_meta = AList.update ''activityId'' (PStr (basename path)) (map (\<lambda>k. (k, PNone)) fit_keys),
      l_hr_samples = [], l_elev = (None, 0)\<rparr>"

definition parse_fit :: "string \<Rightarrow> fit_file \<Rightarrow> error + (meta \<times> point list)" where
  "parse_fit path fit =
     (let st = foldl fit_record_step (fit_start path) (records fit)
      in ebind (efold fit_session_step (sessions fit) (l_meta st)) (fit_finish st))"

section \<open>JSON passthrough\<close>

text \<open>
  \<^verbatim>\<open>load_json_meta\<close> on the value that \<^verbatim>\<open>json.load\<close> returns. Unpacking
  \<^verbatim>\<open>{**data}\<close> raises \<^verbatim>\<open>TypeError\<close> when the value is not an object. The function
  returns \<^verbatim>\<open>None\<close> in place of a coordinate sequence.
\<close>

definition json_defaults :: "string list" where
  "json_defaults = [''duration_s'', ''distance_m'', ''calories'', ''avg_hr'', ''max_hr'',
     ''elevation_gain_m'', ''avg_pace_s'', ''cadence'']"

definition load_json_meta :: "pyval \<Rightarrow> error + (meta \<times> point list option)" where
  "load_json_meta data =
     (case data of
        PDict d \<Rightarrow>
          ebind (normalize_sport (dget d ''sport'')) (\<lambda>s.
          Inr (fold (\<lambda>k. setdefault k PNone) json_defaults (AList.update ''sport'' (PStr s) d), None))
      | _ \<Rightarrow> Inl TypeError)"

section \<open>The batch loop of \<^verbatim>\<open>normalise_strava.py\<close>\<close>

text \<open>
  A file of the input directory: its name, and what each library parser returns on its
  content (\<^verbatim>\<open>ET.parse\<close>, \<^verbatim>\<open>gpxpy.parse\<close>, \<^verbatim>\<open>FitFile\<close> on the bytes and on the
  unzipped bytes, \<^verbatim>\<open>json.load\<close>), \<open>Inl\<close> where it raises. The loop runs only the
  parser that the suffix of the name selects.
\<close>

record rawfile =
  fname :: string
  as_xml :: "error + elem"
  as_gpx :: "error + gpx_doc"
  as_fit :: "error + fit_file"
  as_fit_gz :: "error + fit_file"
  as_json :: "error + pyval"

record feature =
  coordinates :: "point list"
  properties :: meta

text \<open>
  The state of the loop: the two accumulators, and the lines printed by the handler
  \<^verbatim>\<open>print(f"Failed to parse {fname}: {e}")\<close>.
\<close>

record batch =
  index :: "meta list"
  features :: "feature list"
  failures :: "(string \<times> error) list"

definition with_pts :: "meta \<times> point list \<Rightarrow> error + (meta \<times> point list option)" where
  "with_pts r = Inr (fst r, Some (snd r))"

text \<open>
  The dispatch on the lower-cased name; \<open>None\<close> is the final \<^verbatim>\<open>else: continue\<close>.
\<close>

definition extract_file ::
  "float_of \<Rightarrow> int_of \<Rightarrow> rawfile \<Rightarrow> (error + (meta \<times> point list option)) option" where
  "extract_file pf pn f =
     (let lower = str_lower (fname f);
          path = path_join RAW_DIR (fname f)
      in if endswith lower ''.tcx'' then Some (ebind (ebind (as_xml f) (parse_tcx pf pn path)) with_pts)
         else if endswith lower ''.gpx'' then Some (ebind (ebind (as_gpx f) (parse_gpx path)) with_pts)
         else if endswith lower ''.fit'' then Some (ebind (ebind (as_fit f) (parse_fit path)) with_pts)
         else if endswith lower ''.fit.gz'' then Some (ebind (ebind (as_fit_gz f) (parse_fit path)) with_pts)
         else if endswith lower ''.json'' then Some (ebind (as_json f) load_json_meta)
         else None)"

text \<open>\<^verbatim>\<open>if pts:\<close> on a list or \<^verbatim>\<open>None\<close>.\<close>

definition pts_truthy :: "point list option \<Rightarrow> bool" where
  "pts_truthy pts = (case pts of None \<Rightarrow> False | Some ps \<Rightarrow> ps \<noteq> [])"

definition process_file :: "float_of \<Rightarrow> int_of \<Rightarrow> batch \<Rightarrow> rawfile \<Rightarrow> batch" where
  "process_file pf pn st f =
     (case extract_file pf pn f of
        None \<Rightarrow> st
      | Some (Inl e) \<Rightarrow> st\<lparr>failures := failures st @ [(fname f, e)]\<rparr>
      | Some (Inr (m, pts)) \<Rightarrow>
          (let st1 = st\<lparr>index := index st @ [m]\<rparr>
           in if pts_truthy pts
              then st1\<lparr>features := features st1 @ [\<lparr>coordinates = the pts, properties = m\<rparr>]\<rparr>
              else st1))"

text \<open>
  The whole run over the listing of the directory. The result is what the two
  \<^verbatim>\<open>json.dump\<close> calls after the loop write (\<open>index\<close> and \<open>features\<close>).
\<close>

definition main_process :: "float_of \<Rightarrow> int_of \<Rightarrow> rawfile list \<Rightarrow> batch" where
  "main_process pf pn files =
     foldl (process_file pf pn) \<lparr>index = [], features = [], failures = []\<rparr> files"

section \<open>\<^verbatim>\<open>preprocess_tcx.py\<close>\<close>

text \<open>\<^verbatim>\<open>if x:\<close> on a string or \<^verbatim>\<open>None\<close>.\<close>

definition str_truthy :: "string option \<Rightarrow> bool" where
  "str_truthy t = (case t of None \<Rightarrow> False | Some s \<Rightarrow> s \<noteq> [])"

record lap_loop =
  start_time :: "string option"
  total_dist :: real
  total_sec :: real
  total_cal :: real
  coords :: "point list"
  hrs :: "int list"
  alts :: "real list"
  cads :: "int list"

text \<open>
  \<^verbatim>\<open>x = tp.findtext(...)\<close> followed by \<^verbatim>\<open>if x: xs.append(conv(x))\<close>: the values to
  append.
\<close>

definition sample :: "(string \<Rightarrow> 'a option) \<Rightarrow> string option \<Rightarrow> error + 'a list" where
  "sample p t = (if str_truthy t then ebind (py_conv_opt p t) (\<lambda>v. Inr [v]) else Inr [])"

text \<open>
  One trackpoint of a lap. Heart rate, altitude and cadence are read only inside
  \<^verbatim>\<open>if lat and lon:\<close>.
\<close>

definition preprocess_trackpoint :: "float_of \<Rightarrow> int_of \<Rightarrow> lap_loop \<Rightarrow> elem \<Rightarrow> error + lap_loop" where
  "preprocess_trackpoint pf pn st tp =
     (let lat = text_or (find_path ''Position'' ''LatitudeDegrees'' tp) None;
          lon = text_or (find_path ''Position'' ''LongitudeDegrees'' tp) None
      in if str_truthy lat \<and> str_truthy lon then
           ebind (py_conv_opt pf lon) (\<lambda>x.
           ebind (py_conv_opt pf lat) (\<lambda>y.
           ebind (sample pn (text_or (find_path ''HeartRateBpm'' ''Value'' tp) None)) (\<lambda>hr.
           ebind (sample pf (text_or (find_child ''AltitudeMeters'' tp) None)) (\<lambda>alt.
           ebind (sample pn (text_or (find_child ''Cadence'' tp) None)) (\<lambda>cad.
           Inr (st\<lparr>coords := coords st @ [(x, y)], hrs := hrs st @ hr,
                    alts := alts st @ alt, cads := cads st @ cad\<rparr>))))))
         else Inr st)"

text \<open>One lap: the totals, then its trackpoints.\<close>

definition preprocess_lap :: "float_of \<Rightarrow> int_of \<Rightarrow> lap_loop \<Rightarrow> elem \<Rightarrow> error + lap_loop" where
  "preprocess_lap pf pn st lap =
     (let st1 = (if start_time st = None then st\<lparr>start_time := attr_get lap ''StartTime''\<rparr> else st)
      in ebind (py_conv_opt pf (text_or (find_child ''DistanceMeters'' lap) (Some ''0''))) (\<lambda>d.
         ebind (py_conv_opt pf (text_or (find_child ''TotalTimeSeconds'' lap) (Some ''0''))) (\<lambda>t.
         ebind (py_conv_opt pf (text_or (find_child ''Calories'' lap) (Some ''0''))) (\<lambda>c.
         efold (preprocess_trackpoint pf pn) (findall_desc ''Trackpoint'' lap)
           (st1\<lparr>total_dist := total_dist st1 + d, total_sec := total_sec st1 + t,
                 total_cal := total_cal st1 + c\<rparr>)))))"

text \<open>\<^verbatim>\<open>file_path.stem\<close>: the name without its last suffix.\<close>

definition stem :: "string \<Rightarrow> string" where
  "stem name =
     (let k = length (takeWhile (\<lambda>c. c \<noteq> CHR ''.'') (rev name))
      in if k < length name \<and> 0 < k \<and> 0 < length name - 1 - k
         then take (length name - 1 - k) name else name)"

text \<open>
  \<^verbatim>\<open>parse_tcx\<close> of \<^verbatim>\<open>preprocess_tcx.py\<close>. The source returns one dictionary; its
  entry \<^verbatim>\<open>'coordinates'\<close> is the second component here and the other entries the
  first.
\<close>

definition preprocess_parse_tcx ::
  "float_of \<Rightarrow> int_of \<Rightarrow> string \<Rightarrow> elem \<Rightarrow> error + (meta \<times> point list)" where
  "preprocess_parse_tcx pf pn name xroot =
     (let activity = find_desc ''Activity'' xroot;
          sport_attr = (case activity of None \<Rightarrow> ''Other''
                        | Some a \<Rightarrow> attr_get_default a ''Sport'' ''Other'')
      in ebind (efold (preprocess_lap pf pn) (findall_desc ''Lap'' xroot)
                  \<lparr>start_time = None, total_dist = 0, total_sec = 0, total_cal = 0,
                   coords = [], hrs = [], alts = [], cads = []\<rparr>) (\<lambda>st.
         let avg_hr = (if hrs st \<noteq> [] then Some (py_trunc (mean (hrs st))) else None);
             max_hr = (if hrs st \<noteq> [] then Some (py_max (hrs st)) else None);
             elevation_gain = (if 1 < length (alts st) then Some (positive_gain (alts st)) else None);
             avg_cadence = (if cads st \<noteq> [] then Some (py_trunc (mean (cads st))) else None);
             avg_pace_s = (if 0 < total_dist st then Some (total_sec st / (total_dist st / 1000))
                           else None)
         in Inr ([(''activityId'', PStr (stem name)),
                  (''start_time'', opt_str (start_time st)),
                  (''sport'', PStr sport_attr),
                  (''distance_m'', PFloat (total_dist st)),
                  (''duration_s'', PFloat (total_sec st)),
                  (''avg_hr'', opt_int avg_hr),
                  (''max_hr'', opt_int max_hr),
                  (''avg_pace_s'', opt_float avg_pace_s),
                  (''elevation_gain_m'', opt_float elevation_gain),
                  (''cadence'', opt_int avg_cadence),
                  (''calories'', PFloat (total_cal st))],
                 coords st)))"

text \<open>
  \<^verbatim>\<open>main\<close> of \<^verbatim>\<open>preprocess_tcx.py\<close>, over the files that \<^verbatim>\<open>glob('*.tcx')\<close>
  selects. There is no handler around \<^verbatim>\<open>parse_tcx\<close>: an exception leaves the loop and
  the function, so \<open>Inl\<close> is a run that never reaches the two \<^verbatim>\<open>json.dump\<close> calls of
  the merged outputs. The state is \<open>(segments, index)\<close>. (The per-activity files written
  inside the loop are not part of the model.)
\<close>

definition preprocess_file ::
  "float_of \<Rightarrow> int_of \<Rightarrow> feature list \<times> meta list \<Rightarrow> rawfile
     \<Rightarrow> error + (feature list \<times> meta list)" where
  "preprocess_file pf pn st f =
     ebind (ebind (as_xml f) (preprocess_parse_tcx pf pn (fname f))) (\<lambda>data.
       if length (snd data) < 2 then Inr st
       else Inr (fst st @ [\<lparr>coordinates = snd data,
                             properties = [(''activityId'', dget (fst data) ''activityId'')]\<rparr>],
                 snd st @ [fst data]))"

definition preprocess_main ::
  "float_of \<Rightarrow> int_of \<Rightarrow> rawfile list \<Rightarrow> error + (feature list \<times> meta list)" where
  "preprocess_main pf pn files =
     efold (preprocess_file pf pn) (filter (\<lambda>f. endswith (fname f) ''.tcx'') files) ([], [])"

section \<open>Reading results\<close>

text \<open>
  The value of one key of the dictionary that an extractor returns, and the coordinate
  sequence it returns; \<open>Inl\<close> when the extractor raises.
\<close>

definition field :: "string \<Rightarrow> error + (meta \<times> 'a) \<Rightarrow> error + pyval" where
  "field k r = (case r of Inl e \<Rightarrow> Inl e | Inr x \<Rightarrow> Inr (dget (fst x) k))"

definition points_of :: "error + (meta \<times> 'a) \<Rightarrow> error + 'a" where
  "points_of r = (case r of Inl e \<Rightarrow> Inl e | Inr x \<Rightarrow> Inr (snd x))"

text \<open>
  The specification's unit conversion (glossary, semicircle):
  degrees = semicircles \<times> \<^verbatim>\<open>180 / 2**31\<close>.
\<close>

definition semicircle_degrees :: "int \<Rightarrow> real" where
  "semicircle_degrees v = of_int v * (180 / 2 ^ 31)"

text \<open>The distance values of the record messages that are present and not zero, in stream order.\<close>

definition nonzero_distances :: "fit_record list \<Rightarrow> real list" where
  "nonzero_distances rs =
     filter (\<lambda>d. d \<noteq> 0) (concat (map (\<lambda>r. case distance r of None \<Rightarrow> [] | Some d \<Rightarrow> [d]) rs))"



text \<open>A record message without any of the fields that \<^verbatim>\<open>parse_fit\<close> reads.\<close>

definition no_values :: fit_record where
  "no_values = \<lparr>position_lat = None, position_long = None, timestamp = None, distance = None,
     heart_rate = None, enhanced_altitude = None, altitude = None, cadence = None\<rparr>"

section \<open>Examples\<close>

text \<open>
  Concrete inputs for the closed theorems below. \<open>example_float\<close> and \<open>example_int\<close>
  give \<^verbatim>\<open>float(s)\<close> and \<^verbatim>\<open>int(s)\<close> on the strings that the examples contain; every
  number in the table is a binary64 value (\<^verbatim>\<open>float("100.35")\<close> is the float nearest
  to 100.35, which lies below it).
\<close>

definition example_float :: float_of where
  "example_float = map_of [(''0'', 0), (''100'', 100), (''102'', 102), (''105'', 105), (''110'', 110),
     (''105.25'', 105.25), (''1000'', 1000), (''3000'', 3000), (''3600'', 3600), (''10000'', 10000),
     (''51.5'', 51.5), (''-0.125'', - 0.125), (''1003.5'', 1003.5), (''100.35'', fl (2007 / 20))]"

definition example_int :: int_of where
  "example_int = map_of [(''0'', 0), (''100'', 100), (''120'', 120), (''150'', 150), (''151'', 151),
     (''160'', 160), (''180'', 180)]"

definition leaf :: "string \<Rightarrow> string \<Rightarrow> elem" where
  "leaf t s = Elem t [] (Some s) []"

definition node :: "string \<Rightarrow> elem list \<Rightarrow> elem" where
  "node t cs = Elem t [] None cs"

definition one_point_tcx :: elem where
  "one_point_tcx =
     node ''TrainingCenterDatabase''
       [Elem ''Activity'' [(''Sport'', ''Running'')] None
          [Elem ''Lap'' [(''StartTime'', ''2024-05-01T06:00:00Z'')] None
             [node ''Trackpoint''
                [leaf ''Time'' ''2024-05-01T06:00:00Z'',
                 node ''Position'' [leaf ''LatitudeDegrees'' ''51.5'', leaf ''LongitudeDegrees'' ''-0.125'']]]]]"

definition unreadable :: "string \<Rightarrow> rawfile" where
  "unreadable name = \<lparr>fname = name, as_xml = Inl ParseError, as_gpx = Inl ParseError,
     as_fit = Inl ParseError, as_fit_gz = Inl ParseError, as_json = Inl ValueError\<rparr>"

definition two_point_gpx :: gpx_doc where
  "two_point_gpx =
     \<lparr>tracks = [[[\<lparr>longitude = 0, latitude = 51, time = Some ''2024-05-01T06:00:00''\<rparr>,
                  \<lparr>longitude = 1, latitude = 52, time = None\<rparr>]]],
      length_2d = 1000\<rparr>"

definition tcx_file :: "string \<Rightarrow> elem \<Rightarrow> rawfile" where
  "tcx_file name doc = (unreadable name)\<lparr>as_xml := Inr doc\<rparr>"

definition gpx_file :: "string \<Rightarrow> gpx_doc \<Rightarrow> rawfile" where
  "gpx_file name doc = (unreadable name)\<lparr>as_gpx := Inr doc\<rparr>"

definition json_file :: "string \<Rightarrow> pyval \<Rightarrow> rawfile" where
  "json_file name v = (unreadable name)\<lparr>as_json := Inr v\<rparr>"

section \<open>Samples of a TCX document\<close>

text \<open>
  The strictly positive differences of consecutive samples, each computed as a float,
  added from the left as floats: the elevation gain in the arithmetic of
  \<^verbatim>\<open>normalise_strava.py\<close>.
\<close>

definition float_gain :: "real list \<Rightarrow> real" where
  "float_gain xs =
     foldl (\<lambda>g d. fl (g + d)) 0
       (map (\<lambda>(a, b). fl (b - a)) (filter (\<lambda>(a, b). a < b) (zip xs (tl xs))))"

text \<open>
  The altitude samples that the trackpoint walk of \<^verbatim>\<open>parse_tcx\<close> in
  \<^verbatim>\<open>normalise_strava.py\<close> sees: those of the trackpoints that have both
  \<^verbatim>\<open>Position\<close> and \<^verbatim>\<open>Time\<close>, in document order.
\<close>

definition tcx_altitudes :: "float_of \<Rightarrow> elem list \<Rightarrow> real list" where
  "tcx_altitudes pf tps =
     concat (map (\<lambda>tp.
       if find_child ''Position'' tp \<noteq> None \<and> find_child ''Time'' tp \<noteq> None
       then (case text_or (find_child ''AltitudeMeters'' tp) None of None \<Rightarrow> []
             | Some a \<Rightarrow> (case pf a of None \<Rightarrow> [] | Some e \<Rightarrow> [e]))
       else []) tps)"

text \<open>
  The samples that \<^verbatim>\<open>parse_tcx\<close> of \<^verbatim>\<open>preprocess_tcx.py\<close> collects: the values of
  one child of the trackpoints of all laps that have a latitude and a longitude.
\<close>

definition has_position :: "elem \<Rightarrow> bool" where
  "has_position tp =
     (str_truthy (text_or (find_path ''Position'' ''LatitudeDegrees'' tp) None)
      \<and> str_truthy (text_or (find_path ''Position'' ''LongitudeDegrees'' tp) None))"

definition tp_values :: "(string \<Rightarrow> 'a option) \<Rightarrow> (elem \<Rightarrow> string option) \<Rightarrow> elem list \<Rightarrow> 'a list" where
  "tp_values p g tps =
     concat (map (\<lambda>tp. if has_position tp
                        then (case sample p (g tp) of Inl e \<Rightarrow> [] | Inr vs \<Rightarrow> vs) else []) tps)"

definition lap_trackpoints :: "elem \<Rightarrow> elem list" where
  "lap_trackpoints xroot = concat (map (findall_desc ''Trackpoint'') (findall_desc ''Lap'' xroot))"

definition heart_rate_text :: "elem \<Rightarrow> string option" where
  "heart_rate_text tp = text_or (find_path ''HeartRateBpm'' ''Value'' tp) None"

definition altitude_text :: "elem \<Rightarrow> string option" where
  "altitude_text tp = text_or (find_child ''AltitudeMeters'' tp) None"

definition cadence_text :: "elem \<Rightarrow> string option" where
  "cadence_text tp = text_or (find_child ''Cadence'' tp) None"

section \<open>Further examples\<close>

definition position :: elem where
  "position = node ''Position'' [leaf ''LatitudeDegrees'' ''51.5'', leaf ''LongitudeDegrees'' ''-0.125'']"

definition hr_lap :: "string \<Rightarrow> string \<Rightarrow> string \<Rightarrow> elem" where
  "hr_lap avg mx hr =
     node ''Lap''
       [node ''AverageHeartRateBpm'' [leaf ''Value'' avg],
        node ''MaximumHeartRateBpm'' [leaf ''Value'' mx],
        node ''Trackpoint''
          [leaf ''Time'' ''2024-05-01T06:00:00Z'', position, node ''HeartRateBpm'' [leaf ''Value'' hr]]]"

definition hr_tcx :: elem where
  "hr_tcx =
     node ''TrainingCenterDatabase''
       [Elem ''Activity'' [(''Sport'', ''Biking'')] None
          [hr_lap ''150'' ''160'' ''100'', hr_lap ''151'' ''180'' ''120'', hr_lap ''151'' ''160'' ''120'']]"

definition alt_tp :: "string \<Rightarrow> elem" where
  "alt_tp a = node ''Trackpoint'' [leaf ''Time'' ''2024-05-01T06:00:00Z'', position, leaf ''AltitudeMeters'' a]"

definition climb_tcx :: "string list \<Rightarrow> elem" where
  "climb_tcx as =
     node ''TrainingCenterDatabase'' [node ''Activity'' [node ''Lap'' (map alt_tp as)]]"

text \<open>
  A lap with its totals as child elements, as the TrainingCenterDatabase schema has
  them, and a lap with the totals as attributes, where \<^verbatim>\<open>parse_tcx\<close> of
  \<^verbatim>\<open>normalise_strava.py\<close> looks for them.
\<close>

definition lap_tcx :: "string \<Rightarrow> string \<Rightarrow> elem" where
  "lap_tcx t d =
     node ''TrainingCenterDatabase''
       [node ''Activity''
          [node ''Lap'' [leaf ''TotalTimeSeconds'' t, leaf ''DistanceMeters'' d]]]"

definition attr_lap_tcx :: "string \<Rightarrow> string \<Rightarrow> elem" where
  "attr_lap_tcx t d =
     node ''TrainingCenterDatabase''
       [node ''Activity''
          [Elem ''Lap'' [(''TotalTimeSeconds'', t), (''DistanceMeters'', d)] None []]]"

text \<open>Twenty per-lap averages with the mean 3007/20.\<close>

definition twenty_laps :: "int list" where
  "twenty_laps = replicate 13 150 @ replicate 7 151"

definition pace_fit :: fit_file where
  "pace_fit =
     \<lparr>records = [no_values\<lparr>distance := Some 10000\<rparr>],
      sessions = [\<lparr>sport = PStr ''running'', total_elapsed_time = Some 3600, total_calories = None\<rparr>]\<rparr>"


section \<open>Properties\<close>

subsection \<open>Floating point\<close>

text \<open>
  \<open>binade\<close> is the exponent it is meant to be, so a float rounds to zero only when it
  is zero: the tests \<^verbatim>\<open>if x\<close> of the scripts on a rounded result are tests on the
  exact result.
\<close>

lemma up_nonneg: "0 \<le> up x"
proof (induction x rule: up.induct)
  case (1 x)
  show ?case
  proof (cases "x < 2")
    case True
    then show ?thesis by (simp add: up.simps [of x])
  next
    case False
    with 1 show ?thesis by (simp add: up.simps [of x])
  qed
qed

lemma up_bounds: "1 \<le> x \<Longrightarrow> 2 powi (up x) \<le> x \<and> x < 2 powi (up x + 1)"
proof (induction x rule: up.induct)
  case (1 x)
  show ?case
  proof (cases "x < 2")
    case True
    with 1 show ?thesis by (simp add: up.simps [of x])
  next
    case False
    then have "1 \<le> x / 2" by simp
    with 1 False have ih: "2 powi (up (x / 2)) \<le> x / 2 \<and> x / 2 < 2 powi (up (x / 2) + 1)"
      by blast
    have u: "up x = up (x / 2) + 1" using False by (simp add: up.simps [of x])
    show ?thesis
      using ih up_nonneg [of "x / 2"] unfolding u
      by (simp add: power_int_add)
  qed
qed

lemma down_bounds: "0 < x \<Longrightarrow> x < 1 \<Longrightarrow> 2 powi (down x) \<le> x \<and> x < 2 powi (down x + 1)"
proof (induction x rule: down.induct)
  case (1 x)
  have d: "down x = down (x * 2) - 1"
    using 1(2,3) by (simp add: down.simps [of x])
  have h: "2 powi (down (x * 2) - 1) = 2 powi (down (x * 2)) / (2::real)"
    by (simp add: power_int_diff)
  show ?case
  proof (cases "1 \<le> x * 2")
    case True
    then have "down (x * 2) = 0" by (simp add: down.simps [of "x * 2"])
    with 1(2,3) True show ?thesis unfolding d by (simp add: power_int_minus)
  next
    case False
    with 1 have ih: "2 powi (down (x * 2)) \<le> x * 2 \<and> x * 2 < 2 powi (down (x * 2) + 1)"
      by simp
    have h2: "2 powi (down (x * 2) + 1) = 2 powi (down (x * 2)) * (2::real)"
      by (simp add: power_int_add)
    from ih show ?thesis
      unfolding d h h2 by simp
  qed
qed

lemma binade_lower: "0 < a \<Longrightarrow> 2 powi (binade a) \<le> a"
  using up_bounds [of a] down_bounds [of a] by (simp add: binade_def)

lemma round_half_even_ge: "of_int n \<le> y \<Longrightarrow> n \<le> round_half_even y"
proof -
  assume "of_int n \<le> y"
  then have "n \<le> \<lfloor>y\<rfloor>" by (simp add: le_floor_iff)
  then show ?thesis by (simp add: round_half_even_def Let_def)
qed

lemma fl_eq_0_iff: "(fl x = 0) = (x = 0)"
proof (cases "x = 0")
  case True
  then show ?thesis by (simp add: fl_def)
next
  case False
  let ?u = "2 powi (binade \<bar>x\<bar> - 52) :: real"
  have u: "0 < ?u" by simp
  have "2 powi (binade \<bar>x\<bar>) \<le> \<bar>x\<bar>"
    using False by (simp add: binade_lower)
  then have "2 powi (binade \<bar>x\<bar>) / ?u \<le> \<bar>x\<bar> / ?u"
    using u by (simp add: divide_right_mono)
  moreover have "2 powi (binade \<bar>x\<bar>) / ?u = (2::real) ^ 52"
    by (simp add: power_int_diff)
  ultimately have "of_int (2 ^ 52) \<le> \<bar>x\<bar> / ?u" by simp
  then have "2 ^ 52 \<le> round_half_even (\<bar>x\<bar> / ?u)"
    by (rule round_half_even_ge)
  then have "round_half_even (\<bar>x\<bar> / ?u) \<noteq> 0" by simp
  with False u show ?thesis
    by (simp add: fl_def Let_def sgn_eq_0_iff)
qed

lemma fl_0: "fl 0 = 0"
  by (simp add: fl_def)

lemma fl_quotient_eq_0_iff: "(fl (t / fl (d / 1000)) = 0) = (t = 0 \<or> d = 0)"
  by (simp add: fl_eq_0_iff)

lemma py_round1_0: "py_round1 0 = 0"
  by (simp add: py_round1_def round_half_even_def)

lemma py_sum_simps: "py_sum [] = 0" "py_sum [x] = fl x"
  by (simp_all add: py_sum_def)

lemma fl_values: "fl 10 = 10" "fl 360 = 360" "fl 3600 = 3600" "fl 10000 = 10000"
  "fl (2007 / 2) = 2007 / 2"
  by code_simp+

text \<open>
  The floats nearest to 0.1, to 100.35 and to 1000/3, as \<^verbatim>\<open>fractions.Fraction\<close>
  shows them.
\<close>

lemma fl_examples: "fl (1 / 10) = 3602879701896397 / 2 ^ 55"
  "fl (2007 / 20) = 3530751739114291 / 2 ^ 45" "fl (2007 / 20) < 2007 / 20"
  "fl (1000 / 3) = 5864062014805333 / 2 ^ 44"
  by code_simp+

subsection \<open>Characters and strings\<close>

lemmas char_defs = is_upper_def is_lower_def is_cased_def is_space_def to_lower_def to_upper_def

lemma to_lower_idem: "to_lower (to_lower c) = to_lower c"
  by (simp add: char_defs take_bit_eq_mod)

lemma to_upper_idem: "to_upper (to_upper c) = to_upper c"
  by (auto simp add: char_defs take_bit_eq_mod)

lemma to_lower_upper: "to_lower (to_upper c) = to_lower c"
  by (auto simp add: char_defs take_bit_eq_mod char_of_eq_iff)

lemma to_upper_lower: "to_upper (to_lower c) = to_upper c"
  by (auto simp add: char_defs take_bit_eq_mod char_of_eq_iff)

lemma is_cased_lower: "is_cased (to_lower c) = is_cased c"
  by (auto simp add: char_defs take_bit_eq_mod)

lemma is_cased_upper: "is_cased (to_upper c) = is_cased c"
  by (auto simp add: char_defs take_bit_eq_mod)

lemma is_space_lower: "is_space (to_lower c) = is_space c"
  by (auto simp add: char_defs take_bit_eq_mod)

lemma uncased_lower: "\<not> is_cased c \<Longrightarrow> to_lower c = c"
  by (auto simp add: char_defs)

lemma lower_title_from: "str_lower (title_from p s) = str_lower s"
  by (induction s arbitrary: p) (simp_all add: str_lower_def to_lower_idem to_lower_upper)

lemma title_from_idem: "title_from p (title_from p s) = title_from p s"
  by (induction s arbitrary: p) (simp_all add: is_cased_lower is_cased_upper to_lower_idem to_upper_idem)

lemma title_from_lower: "title_from p (str_lower s) = title_from p s"
  by (induction s arbitrary: p) (simp_all add: str_lower_def is_cased_lower to_lower_idem to_upper_lower uncased_lower)

lemma title_from_Nil: "(title_from p s = []) = (s = [])"
  by (cases s) simp_all

lemma dropWhile_space_lower: "dropWhile is_space (map to_lower s) = map to_lower (dropWhile is_space s)"
  by (induction s) (simp_all add: is_space_lower)

lemma strip_lower: "str_strip (str_lower s) = str_lower (str_strip s)"
  by (simp add: str_strip_def str_lower_def dropWhile_space_lower rev_map)

lemma normalize_sport_str:
  "normalize_sport (PStr x) =
     (if str_lower (str_strip x) \<in> set [''cycling'', ''bike'', ''biking''] then Inr ''Biking''
      else if str_lower (str_strip x) = ''running'' then Inr ''Running''
      else if x \<noteq> [] then Inr (str_title x) else Inr ''Unknown'')"
  by (simp add: normalize_sport_def py_or_def Let_def)

lemma normalize_sport_falsy: "\<not> truthy v \<Longrightarrow> normalize_sport v = Inr ''Unknown''"
  by (simp add: normalize_sport_def py_or_def Let_def str_strip_def str_lower_def)

lemma normalize_sport_Inr_str:
  "normalize_sport v = Inr z \<Longrightarrow> truthy v \<Longrightarrow> \<exists>x. v = PStr x"
  by (cases v) (simp_all add: normalize_sport_def py_or_def)

lemma eval_biking: "normalize_sport (PStr ''Biking'') = Inr ''Biking''"
  by (simp add: normalize_sport_def py_or_def Let_def str_strip_def str_lower_def char_defs char_of_eq_iff)

lemma eval_running: "normalize_sport (PStr ''Running'') = Inr ''Running''"
  by (simp add: normalize_sport_def py_or_def Let_def str_strip_def str_lower_def char_defs char_of_eq_iff)

lemma eval_unknown: "normalize_sport (PStr ''Unknown'') = Inr ''Unknown''"
  by (simp add: normalize_sport_def py_or_def Let_def str_strip_def str_lower_def str_title_def char_defs char_of_eq_iff)

lemma normalize_sport_idem_str:
  assumes "normalize_sport (PStr x) = Inr z"
  shows "normalize_sport (PStr z) = Inr z"
proof -
  let ?s = "str_lower (str_strip x)"
  consider (bike) "?s \<in> set [''cycling'', ''bike'', ''biking'']"
    | (run) "?s \<notin> set [''cycling'', ''bike'', ''biking'']" "?s = ''running''"
    | (other) "?s \<notin> set [''cycling'', ''bike'', ''biking'']" "?s \<noteq> ''running''" "x \<noteq> []"
    | (empty) "?s \<notin> set [''cycling'', ''bike'', ''biking'']" "?s \<noteq> ''running''" "x = []"
    by blast
  then show ?thesis
  proof cases
    case bike
    with assms have "z = ''Biking''" by (simp add: normalize_sport_str)
    then show ?thesis by (simp add: eval_biking)
  next
    case run
    with assms have "z = ''Running''" by (simp add: normalize_sport_str)
    then show ?thesis by (simp add: eval_running)
  next
    case other
    with assms have z: "z = str_title x" by (simp add: normalize_sport_str)
    have "str_lower (str_strip z) = ?s"
      by (simp add: z str_title_def strip_lower [symmetric] lower_title_from)
    moreover have "z \<noteq> []" using other(3) by (simp add: z str_title_def title_from_Nil)
    moreover have "str_title z = z" by (simp add: z str_title_def title_from_idem)
    ultimately show ?thesis using other(1,2) by (simp add: normalize_sport_str)
  next
    case empty
    with assms have "z = ''Unknown''" by (simp add: normalize_sport_str)
    then show ?thesis by (simp add: eval_unknown)
  qed
qed

lemma normalize_sport_idem:
  assumes "normalize_sport v = Inr z"
  shows "normalize_sport (PStr z) = Inr z"
proof (cases "truthy v")
  case True
  with assms obtain x where "v = PStr x" using normalize_sport_Inr_str by blast
  with assms show ?thesis by (simp add: normalize_sport_idem_str)
next
  case False
  with assms have "z = ''Unknown''" by (simp add: normalize_sport_falsy)
  then show ?thesis by (simp add: eval_unknown)
qed

lemma normalize_sport_caseless:
  assumes "str_lower x = str_lower y"
  shows "normalize_sport (PStr x) = normalize_sport (PStr y)"
proof -
  have s: "str_lower (str_strip x) = str_lower (str_strip y)"
    using assms by (simp add: strip_lower [symmetric])
  have t: "str_title x = str_title y"
    using assms title_from_lower [of False x] title_from_lower [of False y]
    by (simp add: str_title_def)
  have e: "(x = []) = (y = [])"
    using assms by (auto simp add: str_lower_def)
  show ?thesis by (simp add: normalize_sport_str s t e)
qed

lemma keyword_strip:
  assumes "k \<in> set [''cycling'', ''bike'', ''biking'', ''running'']" "str_lower x = k"
  shows "str_lower (str_strip x) = k"
proof -
  have "str_strip k = k"
    using assms(1) by (auto simp add: str_strip_def is_space_def)
  then show ?thesis using assms(2) by (simp add: strip_lower [symmetric])
qed

lemma ascii_simps: "ascii [] = True" "ascii (c # cs) = ((of_char c :: nat) < 128 \<and> ascii cs)"
  by (simp_all add: ascii_def)

lemma ascii_to_lower: "(of_char c :: nat) < 128 \<Longrightarrow> (of_char (to_lower c) :: nat) < 128"
  by (auto simp add: char_defs take_bit_eq_mod)

lemma ascii_to_upper: "(of_char c :: nat) < 128 \<Longrightarrow> (of_char (to_upper c) :: nat) < 128"
  by (auto simp add: char_defs take_bit_eq_mod)

lemma ascii_title_from: "ascii s \<Longrightarrow> ascii (title_from p s)"
  by (induction s arbitrary: p) (simp_all add: ascii_simps ascii_to_lower ascii_to_upper)

lemma ascii_names: "ascii ''Biking''" "ascii ''Running''" "ascii ''Unknown''"
  by (simp_all add: ascii_simps)

lemma normalize_sport_ascii:
  assumes "ascii_val v" "normalize_sport v = Inr z"
  shows "ascii z"
proof (cases "truthy v")
  case True
  with assms(2) obtain x where x: "v = PStr x" using normalize_sport_Inr_str by blast
  with assms(1) have "ascii (str_title x)"
    by (simp add: ascii_val_def str_title_def ascii_title_from)
  with assms(2) x show ?thesis
    by (auto simp add: normalize_sport_str ascii_names split: if_splits)
next
  case False
  with assms(2) have "z = ''Unknown''" by (simp add: normalize_sport_falsy)
  then show ?thesis by (simp add: ascii_names)
qed

subsection \<open>C10: the sport normalizer\<close>

text \<open>
  The claim has every non-empty input that is not a casing of one of the four keywords
  mapped to its title-cased form. The code strips white space before it compares, so a
  padded keyword is no casing of a keyword and still maps to the canonical name, not to
  its title-cased form. (The input of the example is an ASCII string.)
\<close>

theorem normalize_sport_padded_counterexample:
  "ascii '' bike''
   \<and> '' bike'' \<noteq> [] \<and> str_lower '' bike'' \<notin> set [''cycling'', ''bike'', ''biking'', ''running'']
   \<and> normalize_sport (PStr '' bike'') = Inr ''Biking''
   \<and> str_title '' bike'' = '' Bike''
   \<and> normalize_sport (PStr '' bike'') \<noteq> Inr (str_title '' bike'')"
  by (simp add: normalize_sport_def py_or_def Let_def str_lower_def str_strip_def str_title_def char_defs char_of_eq_iff
      ascii_simps)

text \<open>
  C10 (amended). On ASCII strings \<^verbatim>\<open>normalize_sport\<close> is a function of its argument
  alone, with these values. Any casing of \<^verbatim>\<open>cycling\<close>, \<^verbatim>\<open>bike\<close> or \<^verbatim>\<open>biking\<close>,
  also with white space around it, maps to \<^verbatim>\<open>Biking\<close>; any casing of \<^verbatim>\<open>running\<close>,
  also with white space around it, to \<^verbatim>\<open>Running\<close>; the empty string and \<^verbatim>\<open>None\<close>
  to \<^verbatim>\<open>Unknown\<close>; every other non-empty ASCII string to its title-cased form. Two
  ASCII strings that differ only in case have the same result, and the result of a call
  on an ASCII string (or on a value that is not a string) is an ASCII string and a fixed
  point of the function. Nothing is stated about strings with other characters.
\<close>

theorem normalize_sport_canonical:
  assumes "ascii x" "ascii y" "ascii_val v"
  shows
  "(str_lower x \<in> set [''cycling'', ''bike'', ''biking''] \<longrightarrow> normalize_sport (PStr x) = Inr ''Biking'')
   \<and> (str_lower x = ''running'' \<longrightarrow> normalize_sport (PStr x) = Inr ''Running'')
   \<and> (str_lower (str_strip x) \<in> set [''cycling'', ''bike'', ''biking'']
        \<longrightarrow> normalize_sport (PStr x) = Inr ''Biking'')
   \<and> (str_lower (str_strip x) = ''running'' \<longrightarrow> normalize_sport (PStr x) = Inr ''Running'')
   \<and> normalize_sport (PStr []) = Inr ''Unknown''
   \<and> normalize_sport PNone = Inr ''Unknown''
   \<and> (x \<noteq> [] \<and> str_lower (str_strip x) \<notin> set [''cycling'', ''bike'', ''biking'', ''running'']
        \<longrightarrow> normalize_sport (PStr x) = Inr (str_title x))
   \<and> (str_lower x = str_lower y \<longrightarrow> normalize_sport (PStr x) = normalize_sport (PStr y))
   \<and> (normalize_sport v = Inr z \<longrightarrow> ascii z \<and> normalize_sport (PStr z) = Inr z)"
proof -
  have a: "str_lower x \<in> set [''cycling'', ''bike'', ''biking''] \<longrightarrow> normalize_sport (PStr x) = Inr ''Biking''"
    using keyword_strip [of "str_lower x" x] by (auto simp add: normalize_sport_str)
  have b: "str_lower x = ''running'' \<longrightarrow> normalize_sport (PStr x) = Inr ''Running''"
    using keyword_strip [of "''running''" x] by (simp add: normalize_sport_str)
  have c: "normalize_sport (PStr []) = Inr ''Unknown''" "normalize_sport PNone = Inr ''Unknown''"
    by (simp_all add: normalize_sport_falsy)
  have d: "normalize_sport v = Inr z \<longrightarrow> ascii z"
    using normalize_sport_ascii [OF assms(3)] by blast
  show ?thesis
    using a b c d normalize_sport_caseless [of x y] normalize_sport_idem [of v z]
    by (simp add: normalize_sport_str)
qed

theorem normalize_sport_canonical_witness:
  "normalize_sport (PStr ''BIKING'') = Inr ''Biking''
   \<and> normalize_sport (PStr ''Biking'') = Inr ''Biking''
   \<and> normalize_sport (PStr []) = Inr ''Unknown''
   \<and> normalize_sport (PStr ''Swimming'') = Inr ''Swimming''
   \<and> normalize_sport (PStr ''RUNNING'') = Inr ''Running''
   \<and> normalize_sport (PStr ''trail run'') = Inr ''Trail Run''
   \<and> normalize_sport (PStr ''Trail Run'') = Inr ''Trail Run''"
proof -
  have e: "str_lower ''BIKING'' = ''biking''" "str_lower ''Biking'' = ''biking''"
    "str_lower ''RUNNING'' = ''running''"
    "str_lower (str_strip ''Swimming'') = ''swimming''" "str_title ''Swimming'' = ''Swimming''"
    "str_lower (str_strip ''trail run'') = ''trail run''" "str_title ''trail run'' = ''Trail Run''"
    by (simp_all add: str_lower_def str_strip_def str_title_def char_defs char_of_eq_iff)
  have k: "ascii ''BIKING''" "ascii ''Biking''" "ascii ''Swimming''" "ascii ''RUNNING''"
    "ascii ''trail run''" "ascii_val PNone" "ascii_val (PStr ''Biking'')"
    "ascii_val (PStr ''trail run'')"
    by (simp_all add: ascii_simps ascii_val_def)
  have t: "normalize_sport (PStr ''trail run'') = Inr ''Trail Run''"
    using normalize_sport_canonical [OF k(5) k(5) k(6), of "''Unknown''"] by (simp add: e)
  show ?thesis
    using normalize_sport_canonical [OF k(1) k(2) k(6), of "''Unknown''"]
      normalize_sport_canonical [OF k(2) k(2) k(7), of "''Biking''"]
      normalize_sport_canonical [OF k(3) k(3) k(6), of "''Unknown''"]
      normalize_sport_canonical [OF k(4) k(4) k(6), of "''Unknown''"]
      normalize_sport_canonical [OF k(5) k(5) k(8), of "''Trail Run''"] t
    by (simp add: e)
qed

subsection \<open>C4: the JSON passthrough\<close>

lemma map_of_setdefault:
  "map_of (setdefault k v d) k' = (if k' = k \<and> map_of d k = None then Some v else map_of d k')"
  by (auto simp add: setdefault_def update_conv' split: option.splits)

lemma map_of_fold_setdefault:
  "map_of (fold (\<lambda>k. setdefault k v) ks d) k' =
     (if k' \<in> set ks \<and> map_of d k' = None then Some v else map_of d k')"
  by (induction ks arbitrary: d) (auto simp add: map_of_setdefault)

lemma load_json_meta_dict:
  "load_json_meta (PDict d) =
     (case normalize_sport (dget d ''sport'') of Inl e \<Rightarrow> Inl e
      | Inr s \<Rightarrow> Inr (fold (\<lambda>k. setdefault k PNone) json_defaults (AList.update ''sport'' (PStr s) d), None))"
  by (simp add: load_json_meta_def ebind_def)

lemma eval_run: "normalize_sport (dget [(''sport'', PStr ''run'')] ''sport'') = Inr ''Run''"
  by (simp add: dget_def normalize_sport_def py_or_def Let_def str_lower_def str_strip_def str_title_def char_defs char_of_eq_iff)

text \<open>
  The claim's own example: for the object \<^verbatim>\<open>{"sport": "run"}\<close> the sport becomes
  \<^verbatim>\<open>Run\<close> (the table of the normalizer has no entry \<^verbatim>\<open>run\<close>, so the title-cased
  input is returned), not \<^verbatim>\<open>Running\<close>; and the result has eight defaulted keys, with
  no key \<^verbatim>\<open>start_time\<close>.
\<close>

theorem load_json_meta_run_counterexample:
  "load_json_meta (PDict [(''sport'', PStr ''run'')]) =
     Inr ([(''sport'', PStr ''Run''), (''duration_s'', PNone), (''distance_m'', PNone),
           (''calories'', PNone), (''avg_hr'', PNone), (''max_hr'', PNone),
           (''elevation_gain_m'', PNone), (''avg_pace_s'', PNone), (''cadence'', PNone)], None)"
  by (simp add: load_json_meta_dict eval_run json_defaults_def setdefault_def)

text \<open>
  C4 (amended). For every JSON object whose sport the normalizer accepts,
  \<^verbatim>\<open>load_json_meta\<close> returns the object with \<^verbatim>\<open>sport\<close> replaced by its normalized
  form, each of the eight keys \<^verbatim>\<open>duration_s\<close>, \<^verbatim>\<open>distance_m\<close>, \<^verbatim>\<open>calories\<close>,
  \<^verbatim>\<open>avg_hr\<close>, \<^verbatim>\<open>max_hr\<close>, \<^verbatim>\<open>elevation_gain_m\<close>, \<^verbatim>\<open>avg_pace_s\<close>, \<^verbatim>\<open>cadence\<close>
  set to \<^verbatim>\<open>None\<close> when it is missing and left as it is otherwise, every other key
  (other than \<^verbatim>\<open>sport\<close>) left as it is, and no coordinate sequence.
\<close>

theorem load_json_meta_passthrough:
  assumes "normalize_sport (dget d ''sport'') = Inr s"
  shows "\<exists>m. load_json_meta (PDict d) = Inr (m, None)
           \<and> map_of m ''sport'' = Some (PStr s)
           \<and> (\<forall>k. k \<in> set json_defaults \<longrightarrow>
                  map_of m k = (case map_of d k of None \<Rightarrow> Some PNone | Some v \<Rightarrow> Some v))
           \<and> (\<forall>k. k \<noteq> ''sport'' \<and> k \<notin> set json_defaults \<longrightarrow> map_of m k = map_of d k)"
proof -
  let ?m = "fold (\<lambda>k. setdefault k PNone) json_defaults (AList.update ''sport'' (PStr s) d)"
  have r: "load_json_meta (PDict d) = Inr (?m, None)"
    using assms by (simp add: load_json_meta_dict)
  have k: "''sport'' \<notin> set json_defaults"
    by (simp add: json_defaults_def)
  have s: "map_of ?m ''sport'' = Some (PStr s)"
    using k by (simp add: map_of_fold_setdefault update_conv')
  have d: "map_of ?m k = (case map_of d k of None \<Rightarrow> Some PNone | Some v \<Rightarrow> Some v)"
    if "k \<in> set json_defaults" for k
  proof -
    from that k have "k \<noteq> ''sport''" by blast
    with that show ?thesis
      by (simp add: map_of_fold_setdefault update_conv' split: option.splits)
  qed
  have o: "map_of ?m k = map_of d k" if "k \<noteq> ''sport'' \<and> k \<notin> set json_defaults" for k
    using that by (simp add: map_of_fold_setdefault update_conv')
  from r s d o show ?thesis by blast
qed

theorem load_json_meta_passthrough_witness:
  "\<exists>m. load_json_meta (PDict [(''sport'', PStr ''run''), (''calories'', PInt 0)]) = Inr (m, None)
      \<and> map_of m ''sport'' = Some (PStr ''Run'')
      \<and> map_of m ''calories'' = Some (PInt 0)
      \<and> map_of m ''cadence'' = Some PNone
      \<and> map_of m ''note'' = None"
proof -
  have e: "normalize_sport (dget [(''sport'', PStr ''run''), (''calories'', PInt 0)] ''sport'') = Inr ''Run''"
    by (simp add: dget_def normalize_sport_def py_or_def Let_def str_lower_def str_strip_def str_title_def char_defs char_of_eq_iff)
  from load_json_meta_passthrough [OF e] obtain m where
    m: "load_json_meta (PDict [(''sport'', PStr ''run''), (''calories'', PInt 0)]) = Inr (m, None)"
      "map_of m ''sport'' = Some (PStr ''Run'')"
      "\<forall>k. k \<in> set json_defaults \<longrightarrow>
          map_of m k = (case map_of [(''sport'', PStr ''run''), (''calories'', PInt 0)] k of None \<Rightarrow> Some PNone | Some v \<Rightarrow> Some v)"
      "\<forall>k. k \<noteq> ''sport'' \<and> k \<notin> set json_defaults \<longrightarrow> map_of m k = map_of [(''sport'', PStr ''run''), (''calories'', PInt 0)] k"
    by blast
  have "map_of m ''calories'' = Some (PInt 0)" using m(3) by (simp add: json_defaults_def)
  moreover have "map_of m ''cadence'' = Some PNone" using m(3) by (simp add: json_defaults_def)
  moreover have "map_of m ''note'' = None" using m(4) by (simp add: json_defaults_def)
  ultimately show ?thesis using m(1,2) by blast
qed

subsection \<open>The FIT extractor\<close>

lemma dget_update: "dget (AList.update k v m) k' = (if k' = k then v else dget m k')"
  by (simp add: dget_def update_conv')

lemma fit_record_step_meta:
  "dget (l_meta (fit_record_step st r)) k =
     (if k = ''cadence'' \<and> present_nz (cadence r) then opt_int (cadence r)
      else if k = ''distance_m'' \<and> present_nz (distance r) then opt_float (distance r)
      else if k = ''start_time'' \<and> timestamp r \<noteq> None \<and> \<not> truthy (dget (l_meta st) ''start_time'')
        then opt_str (timestamp r)
      else dget (l_meta st) k)"
proof -
  have p: "l_meta (rec_position r st) = l_meta st" for st
    by (simp add: rec_position_def split: option.splits)
  have h: "l_meta (rec_heart_rate r st) = l_meta st" for st
    by (simp add: rec_heart_rate_def split: option.splits)
  have a: "l_meta (rec_altitude r st) = l_meta st" for st
    by (simp add: rec_altitude_def split: option.splits)
  have t: "dget (l_meta (rec_timestamp r st)) k =
      (if k = ''start_time'' \<and> timestamp r \<noteq> None \<and> \<not> truthy (dget (l_meta st) ''start_time'')
       then opt_str (timestamp r) else dget (l_meta st) k)" for st k
    by (simp add: rec_timestamp_def dget_update opt_str_def split: option.splits)
  have d: "dget (l_meta (rec_distance r st)) k =
      (if k = ''distance_m'' \<and> present_nz (distance r) then opt_float (distance r) else dget (l_meta st) k)" for st k
    by (simp add: rec_distance_def dget_update)
  have c: "dget (l_meta (rec_cadence r st)) k =
      (if k = ''cadence'' \<and> present_nz (cadence r) then opt_int (cadence r) else dget (l_meta st) k)" for st k
    by (simp add: rec_cadence_def dget_update)
  show ?thesis
    by (auto simp add: fit_record_step_def c a h d t p)
qed

lemma fit_record_step_pts:
  "l_pts (fit_record_step st r) =
     l_pts st @ (if present_nz (position_lat r) \<and> present_nz (position_long r)
                 then [(semicircle_degrees (the (position_long r)), semicircle_degrees (the (position_lat r)))]
                 else [])"
proof -
  have p: "l_pts (rec_position r st) = l_pts st @ (if present_nz (position_lat r) \<and> present_nz (position_long r)
                 then [(semicircle_degrees (the (position_long r)), semicircle_degrees (the (position_lat r)))]
                 else [])"
    by (simp add: rec_position_def present_nz_def semicircle_degrees_def split: option.splits)
  have o: "l_pts (rec_timestamp r st) = l_pts st" "l_pts (rec_distance r st) = l_pts st"
    "l_pts (rec_heart_rate r st) = l_pts st" "l_pts (rec_altitude r st) = l_pts st"
    "l_pts (rec_cadence r st) = l_pts st" for st
    by (simp_all add: rec_timestamp_def rec_distance_def rec_heart_rate_def rec_altitude_def rec_cadence_def
        split: option.splits)
  show ?thesis
    by (simp add: fit_record_step_def o p)
qed

lemma fit_records_pts:
  "l_pts (foldl fit_record_step st rs) =
     l_pts st @ map (\<lambda>r. (semicircle_degrees (the (position_long r)), semicircle_degrees (the (position_lat r))))
       (filter (\<lambda>r. present_nz (position_lat r) \<and> present_nz (position_long r)) rs)"
  by (induction rs arbitrary: st) (simp_all add: fit_record_step_pts)

lemma nonzero_distances_Cons:
  "nonzero_distances (r # rs) = (if present_nz (distance r) then [the (distance r)] else []) @ nonzero_distances rs"
  by (auto simp add: nonzero_distances_def present_nz_def split: option.splits)

lemma fit_records_distance:
  "dget (l_meta (foldl fit_record_step st rs)) ''distance_m'' =
     (if nonzero_distances rs = [] then dget (l_meta st) ''distance_m''
      else PFloat (last (nonzero_distances rs)))"
proof (induction rs arbitrary: st)
  case Nil
  show ?case by (simp add: nonzero_distances_def)
next
  case (Cons r rs)
  show ?case
    by (auto simp add: Cons.IH fit_record_step_meta nonzero_distances_Cons present_nz_def opt_float_def
        split: option.splits)
qed

lemma ebind_eq_Inr: "(ebind r f = Inr y) = (\<exists>x. r = Inr x \<and> f x = Inr y)"
  by (cases r) (simp_all add: ebind_def)

lemma session_sport_Inr:
  assumes "session_sport v m = Inr m1" "k \<noteq> ''sport''"
  shows "dget m1 k = dget m k"
  using assms
  by (auto simp add: session_sport_def ebind_eq_Inr dget_update split: if_splits)

lemma fit_session_step_InrE:
  assumes "fit_session_step m v = Inr m'"
  obtains m1 where "session_sport v m = Inr m1" "m' = session_calories v (session_duration v m1)"
  using assms by (auto simp add: fit_session_step_def ebind_eq_Inr)

lemma fit_session_step_other:
  assumes "fit_session_step m v = Inr m'" "k \<notin> set [''sport'', ''duration_s'', ''calories'']"
  shows "dget m' k = dget m k"
proof -
  from assms(1) obtain m1 where
    m1: "session_sport v m = Inr m1" and m': "m' = session_calories v (session_duration v m1)"
    by (rule fit_session_step_InrE)
  from assms(2) have "dget m' k = dget m1 k"
    by (simp add: m' session_calories_def session_duration_def dget_update)
  with session_sport_Inr [OF m1, of k] assms(2) show ?thesis by simp
qed

lemma fit_sessions_other:
  assumes "efold fit_session_step vs m = Inr m'" "k \<notin> set [''sport'', ''duration_s'', ''calories'']"
  shows "dget m' k = dget m k"
  using assms
proof (induction vs arbitrary: m)
  case Nil
  then show ?case by simp
next
  case (Cons v vs)
  from Cons.prems(1) obtain m1 where s: "fit_session_step m v = Inr m1" "efold fit_session_step vs m1 = Inr m'"
    by (auto split: sum.splits)
  from Cons.IH [OF s(2) Cons.prems(2)] fit_session_step_other [OF s(1) Cons.prems(2)]
  show ?case by simp
qed

lemma fit_pace_other:
  assumes "fit_pace m = Inr m'" "k \<noteq> ''avg_pace_s''"
  shows "dget m' k = dget m k"
  using assms by (auto simp add: fit_pace_def dget_update split: if_splits pyval.splits)

lemma parse_fit_InrE:
  assumes "parse_fit path fit = Inr (m, pts)"
  obtains m1 where
    "efold fit_session_step (sessions fit) (l_meta (foldl fit_record_step (fit_start path) (records fit))) = Inr m1"
    "fit_finish (foldl fit_record_step (fit_start path) (records fit)) m1 = Inr (m, pts)"
  using assms
  by (auto simp add: parse_fit_def ebind_def Let_def split: sum.splits)

lemma fit_finish_InrE:
  assumes "fit_finish st m1 = Inr (m, pts)"
  obtains m3 where
    "m3 = (if snd (l_elev st) \<noteq> 0
           then AList.update ''elevation_gain_m'' (PFloat (py_round1 (snd (l_elev st))))
                  (if l_hr_samples st \<noteq> []
                   then AList.update ''max_hr'' (PInt (py_max (l_hr_samples st)))
                          (AList.update ''avg_hr'' (PFloat (py_round1 (fl (mean (l_hr_samples st))))) m1)
                   else m1)
           else (if l_hr_samples st \<noteq> []
                   then AList.update ''max_hr'' (PInt (py_max (l_hr_samples st)))
                          (AList.update ''avg_hr'' (PFloat (py_round1 (fl (mean (l_hr_samples st))))) m1)
                   else m1))"
    "fit_pace m3 = Inr m" "pts = l_pts st"
  using assms
  by (auto simp add: fit_finish_def ebind_def Let_def split: sum.splits)

lemma fit_start_meta: "dget (l_meta (fit_start path)) k = (if k = ''activityId'' then PStr (basename path) else PNone)"
  by (simp add: fit_start_def dget_update) (simp add: dget_def fit_keys_def)

lemma fit_start_pts: "l_pts (fit_start path) = []"
  by (simp add: fit_start_def)

lemmas fit_eval = parse_fit_def fit_start_def fit_record_step_def rec_position_def rec_timestamp_def
  rec_distance_def rec_heart_rate_def rec_altitude_def rec_cadence_def fit_session_step_def
  session_sport_def session_duration_def session_calories_def
  fit_finish_def fit_pace_def ebind_def Let_def dget_def present_nz_def or_opt_def opt_float_def
  opt_int_def opt_str_def fit_keys_def elev_step_def no_values_def field_def points_of_def

subsection \<open>C8: the distance of a FIT file\<close>

text \<open>
  The claim takes the latest distance that is not absent. The code tests
  \<^verbatim>\<open>if vals.get("distance"):\<close>, so a distance of zero does not overwrite: after the
  distances 100 and 0 the result is 100.
\<close>

theorem parse_fit_zero_distance_counterexample:
  "field ''distance_m''
     (parse_fit ''raw/a.fit''
        \<lparr>records = [no_values\<lparr>distance := Some 100\<rparr>, no_values\<lparr>distance := Some 0\<rparr>],
         sessions = []\<rparr>) = Inr (PFloat 100)"
  by (simp add: fit_eval)

text \<open>
  C8 (amended). For every FIT input that \<^verbatim>\<open>parse_fit\<close> extracts, \<^verbatim>\<open>distance_m\<close> is
  the latest distance among the record messages, in stream order, that is present and
  not zero (overwrite, no accumulation), and \<^verbatim>\<open>None\<close> when there is none.
\<close>

theorem parse_fit_distance_last_nonzero:
  assumes "parse_fit path fit = Inr (m, pts)"
  shows "dget m ''distance_m'' =
           (if nonzero_distances (records fit) = [] then PNone
            else PFloat (last (nonzero_distances (records fit))))"
proof -
  let ?st = "foldl fit_record_step (fit_start path) (records fit)"
  from assms obtain m1 where
    m1: "efold fit_session_step (sessions fit) (l_meta ?st) = Inr m1"
    and f: "fit_finish ?st m1 = Inr (m, pts)"
    by (rule parse_fit_InrE)
  from f obtain m3 where
    m3: "m3 = (if snd (l_elev ?st) \<noteq> 0
           then AList.update ''elevation_gain_m'' (PFloat (py_round1 (snd (l_elev ?st))))
                  (if l_hr_samples ?st \<noteq> []
                   then AList.update ''max_hr'' (PInt (py_max (l_hr_samples ?st)))
                          (AList.update ''avg_hr'' (PFloat (py_round1 (fl (mean (l_hr_samples ?st))))) m1)
                   else m1)
           else (if l_hr_samples ?st \<noteq> []
                   then AList.update ''max_hr'' (PInt (py_max (l_hr_samples ?st)))
                          (AList.update ''avg_hr'' (PFloat (py_round1 (fl (mean (l_hr_samples ?st))))) m1)
                   else m1))"
    and m: "fit_pace m3 = Inr m"
    by (rule fit_finish_InrE)
  have "dget m ''distance_m'' = dget m3 ''distance_m''"
    using fit_pace_other [OF m] by simp
  also have "\<dots> = dget m1 ''distance_m''"
    by (simp add: m3 dget_update)
  also have "\<dots> = dget (l_meta ?st) ''distance_m''"
    using fit_sessions_other [OF m1] by simp
  also have "\<dots> = (if nonzero_distances (records fit) = [] then PNone
            else PFloat (last (nonzero_distances (records fit))))"
    by (simp add: fit_records_distance fit_start_meta)
  finally show ?thesis .
qed

lemma fit_three_distances: "parse_fit ''raw/a.fit''
        \<lparr>records = [no_values\<lparr>distance := Some 100\<rparr>, no_values\<lparr>distance := Some 250\<rparr>, no_values\<lparr>distance := Some 200\<rparr>],
         sessions = []\<rparr> = Inr (AList.update ''distance_m'' (PFloat 200) (l_meta (fit_start ''raw/a.fit'')), [])"
  by (simp add: fit_eval)

theorem parse_fit_distance_last_nonzero_witness:
  "field ''distance_m''
     (parse_fit ''raw/a.fit''
        \<lparr>records = [no_values\<lparr>distance := Some 100\<rparr>, no_values\<lparr>distance := Some 250\<rparr>,
                    no_values\<lparr>distance := Some 200\<rparr>],
         sessions = []\<rparr>) = Inr (PFloat 200)"
  using parse_fit_distance_last_nonzero [OF fit_three_distances] unfolding fit_three_distances field_def
  by (simp add: nonzero_distances_def no_values_def)

subsection \<open>C9: semicircles to degrees\<close>

text \<open>
  The claim has the conversion applied to every raw value. The code tests
  \<^verbatim>\<open>if lat and lon:\<close>, so a record whose latitude or longitude is 0 semicircles yields
  no coordinate at all.
\<close>

theorem parse_fit_zero_position_counterexample:
  "points_of
     (parse_fit ''raw/a.fit''
        \<lparr>records = [no_values\<lparr>position_lat := Some 0, position_long := Some (2 ^ 30)\<rparr>],
         sessions = []\<rparr>) = Inr []"
  by (simp add: fit_eval)

text \<open>
  C9 (amended). For every FIT input that \<^verbatim>\<open>parse_fit\<close> extracts, the coordinate
  sequence consists, in stream order, of the records whose latitude and longitude are
  both present and not zero, each converted to (longitude, latitude) in degrees by
  multiplying the semicircles by \<^verbatim>\<open>180 / 2**31\<close>; a value of \<^verbatim>\<open>2**30\<close> semicircles is
  90 degrees.
\<close>

theorem parse_fit_points:
  assumes "parse_fit path fit = Inr (m, pts)"
  shows "pts = map (\<lambda>r. (semicircle_degrees (the (position_long r)), semicircle_degrees (the (position_lat r))))
                 (filter (\<lambda>r. present_nz (position_lat r) \<and> present_nz (position_long r)) (records fit))
         \<and> semicircle_degrees (2 ^ 30) = 90"
proof -
  let ?st = "foldl fit_record_step (fit_start path) (records fit)"
  from assms obtain m1 where f: "fit_finish ?st m1 = Inr (m, pts)"
    by (rule parse_fit_InrE)
  from f have p: "pts = l_pts ?st"
    by (rule fit_finish_InrE)
  show ?thesis
    by (simp add: p fit_records_pts fit_start_pts semicircle_degrees_def)
qed

lemma fit_two_positions: "parse_fit ''raw/a.fit''
        \<lparr>records = [no_values\<lparr>position_lat := Some (2 ^ 30), position_long := Some (- (2 ^ 29))\<rparr>,
                    no_values\<lparr>position_lat := Some 0, position_long := Some 5\<rparr>],
         sessions = []\<rparr> = Inr (l_meta (fit_start ''raw/a.fit''), [(- 45, 90)])"
  by (simp add: fit_eval)

theorem parse_fit_points_witness:
  "points_of
     (parse_fit ''raw/a.fit''
        \<lparr>records = [no_values\<lparr>position_lat := Some (2 ^ 30), position_long := Some (- (2 ^ 29))\<rparr>,
                    no_values\<lparr>position_lat := Some 0, position_long := Some 5\<rparr>],
         sessions = []\<rparr>) = Inr [(semicircle_degrees (- (2 ^ 29)), semicircle_degrees (2 ^ 30))]
   \<and> semicircle_degrees (2 ^ 30) = 90 \<and> semicircle_degrees (- (2 ^ 29)) = - 45"
  using parse_fit_points [OF fit_two_positions] unfolding fit_two_positions points_of_def
  by (simp add: present_nz_def no_values_def semicircle_degrees_def)


subsection \<open>The two batch loops\<close>

lemma process_file_index:
  "index (process_file pf pn st f) =
     index st @ (case extract_file pf pn f of Some (Inr r) \<Rightarrow> [fst r] | _ \<Rightarrow> [])"
  by (simp add: process_file_def Let_def split: option.splits sum.splits prod.splits)

lemma process_file_features:
  "features (process_file pf pn st f) =
     features st @ (case extract_file pf pn f of
                      Some (Inr r) \<Rightarrow> if pts_truthy (snd r)
                                       then [\<lparr>coordinates = the (snd r), properties = fst r\<rparr>] else []
                    | _ \<Rightarrow> [])"
  by (simp add: process_file_def Let_def split: option.splits sum.splits prod.splits)

lemma process_file_failures:
  "failures (process_file pf pn st f) =
     failures st @ (case extract_file pf pn f of Some (Inl e) \<Rightarrow> [(fname f, e)] | _ \<Rightarrow> [])"
  by (simp add: process_file_def Let_def split: option.splits sum.splits prod.splits)

lemma foldl_process_index:
  "index (foldl (process_file pf pn) st files) =
     index st @ concat (map (\<lambda>f. case extract_file pf pn f of Some (Inr r) \<Rightarrow> [fst r] | _ \<Rightarrow> []) files)"
  by (induction files arbitrary: st) (simp_all add: process_file_index)

lemma foldl_process_features:
  "features (foldl (process_file pf pn) st files) =
     features st @ concat (map (\<lambda>f. case extract_file pf pn f of
                      Some (Inr r) \<Rightarrow> if pts_truthy (snd r)
                                       then [\<lparr>coordinates = the (snd r), properties = fst r\<rparr>] else []
                    | _ \<Rightarrow> []) files)"
  by (induction files arbitrary: st) (simp_all add: process_file_features)

lemma foldl_process_failures:
  "failures (foldl (process_file pf pn) st files) =
     failures st @ concat (map (\<lambda>f. case extract_file pf pn f of Some (Inl e) \<Rightarrow> [(fname f, e)] | _ \<Rightarrow> []) files)"
  by (induction files arbitrary: st) (simp_all add: process_file_failures)

lemma efold_preprocess_Inr:
  assumes "efold (preprocess_file pf pn) fs st = Inr st'"
  shows "snd st' = snd st @ concat (map (\<lambda>f.
            case ebind (as_xml f) (preprocess_parse_tcx pf pn (fname f)) of
              Inr r \<Rightarrow> if length (snd r) < 2 then [] else [fst r]
            | Inl e \<Rightarrow> []) fs)
       \<and> map coordinates (fst st') = map coordinates (fst st) @ concat (map (\<lambda>f.
            case ebind (as_xml f) (preprocess_parse_tcx pf pn (fname f)) of
              Inr r \<Rightarrow> if length (snd r) < 2 then [] else [snd r]
            | Inl e \<Rightarrow> []) fs)"
  using assms
proof (induction fs arbitrary: st)
  case Nil
  then show ?case by simp
next
  case (Cons f fs)
  from Cons.prems obtain st1 where
    s: "preprocess_file pf pn st f = Inr st1" "efold (preprocess_file pf pn) fs st1 = Inr st'"
    by (auto split: sum.splits)
  from s(1) obtain r where
    r: "ebind (as_xml f) (preprocess_parse_tcx pf pn (fname f)) = Inr r"
       "st1 = (if length (snd r) < 2 then st else
                 (fst st @ [\<lparr>coordinates = snd r, properties = [(''activityId'', dget (fst r) ''activityId'')]\<rparr>],
                  snd st @ [fst r]))"
    unfolding preprocess_file_def
    by (cases "ebind (as_xml f) (preprocess_parse_tcx pf pn (fname f))") (auto simp add: ebind_def split: if_splits)
  show ?case
    using Cons.IH [OF s(2)] r by simp
qed

lemma efold_preprocess_isl:
  "isl (efold (preprocess_file pf pn) fs st) =
     (\<exists>f \<in> set fs. isl (ebind (as_xml f) (preprocess_parse_tcx pf pn (fname f))))"
proof (induction fs arbitrary: st)
  case Nil
  show ?case by simp
next
  case (Cons f fs)
  show ?case
  proof (cases "ebind (as_xml f) (preprocess_parse_tcx pf pn (fname f))")
    case (Inl e)
    then have "preprocess_file pf pn st f = Inl e"
      by (simp add: preprocess_file_def ebind_def)
    with Inl show ?thesis by simp
  next
    case (Inr r)
    then obtain st1 where "preprocess_file pf pn st f = Inr st1"
      by (cases "length (snd r) < 2") (simp_all add: preprocess_file_def ebind_def)
    with Inr Cons.IH [of st1] show ?thesis by simp
  qed
qed

lemmas str_eval = str_lower_def str_strip_def str_title_def char_defs char_of_eq_iff endswith_def
  basename_def path_join_def RAW_DIR_def stem_def
lemmas xml_eval = findall_desc_def find_desc_def childs_def find_child_def find_path_def
  find_desc_path_def first_of_def text_or_def attr_get_def attr_get_default_def conv_text_def
  py_conv_def py_conv_opt_def leaf_def node_def
lemmas err_eval = ebind_def Let_def
lemmas sport_eval = normalize_sport_def py_or_def

lemma one_point_desc: "descendants one_point_tcx = 
  [Elem ''Activity'' [(''Sport'', ''Running'')] None
          [Elem ''Lap'' [(''StartTime'', ''2024-05-01T06:00:00Z'')] None
             [node ''Trackpoint''
                [leaf ''Time'' ''2024-05-01T06:00:00Z'',
                 node ''Position'' [leaf ''LatitudeDegrees'' ''51.5'', leaf ''LongitudeDegrees'' ''-0.125'']]]],
   Elem ''Lap'' [(''StartTime'', ''2024-05-01T06:00:00Z'')] None
             [node ''Trackpoint''
                [leaf ''Time'' ''2024-05-01T06:00:00Z'',
                 node ''Position'' [leaf ''LatitudeDegrees'' ''51.5'', leaf ''LongitudeDegrees'' ''-0.125'']]],
   node ''Trackpoint''
                [leaf ''Time'' ''2024-05-01T06:00:00Z'',
                 node ''Position'' [leaf ''LatitudeDegrees'' ''51.5'', leaf ''LongitudeDegrees'' ''-0.125'']],
   leaf ''Time'' ''2024-05-01T06:00:00Z'',
   node ''Position'' [leaf ''LatitudeDegrees'' ''51.5'', leaf ''LongitudeDegrees'' ''-0.125''],
   leaf ''LatitudeDegrees'' ''51.5'', leaf ''LongitudeDegrees'' ''-0.125'']"
  by (simp add: one_point_tcx_def node_def leaf_def)

lemma preprocess_one_point: "preprocess_parse_tcx example_float example_int ''a.tcx'' one_point_tcx =
   Inr ([(''activityId'', PStr ''a''), (''start_time'', PStr ''2024-05-01T06:00:00Z''),
         (''sport'', PStr ''Running''), (''distance_m'', PFloat 0), (''duration_s'', PFloat 0),
         (''avg_hr'', PNone), (''max_hr'', PNone), (''avg_pace_s'', PNone),
         (''elevation_gain_m'', PNone), (''cadence'', PNone), (''calories'', PFloat 0)],
        [(- 0.125, 51.5)])"
  by (simp add: preprocess_parse_tcx_def preprocess_lap_def preprocess_trackpoint_def sample_def
      str_truthy_def xml_eval err_eval one_point_desc stem_def opt_str_def opt_int_def opt_float_def
      example_float_def example_int_def)

lemma parse_tcx_one_point: "parse_tcx example_float example_int ''raw/a.tcx'' one_point_tcx =
   Inr ([(''activityId'', PStr ''a.tcx''), (''sport'', PStr ''Running''),
         (''start_time'', PStr ''2024-05-01T06:00:00Z''), (''duration_s'', PFloat 0),
         (''distance_m'', PFloat 0), (''calories'', PInt 0), (''avg_hr'', PNone), (''max_hr'', PNone),
         (''elevation_gain_m'', PFloat 0), (''avg_pace_s'', PNone)],
        [(- 0.125, 51.5)])"
  by (simp add: parse_tcx_def tcx_trackpoint_def lap_hr_def xml_eval err_eval one_point_desc
      sport_eval str_eval opt_str_def opt_int_def py_round1_0 py_sum_def fl_0
      example_float_def example_int_def)

lemma extract_one_point: "extract_file example_float example_int (tcx_file ''a.tcx'' one_point_tcx) =
   Some (Inr ([(''activityId'', PStr ''a.tcx''), (''sport'', PStr ''Running''),
         (''start_time'', PStr ''2024-05-01T06:00:00Z''), (''duration_s'', PFloat 0),
         (''distance_m'', PFloat 0), (''calories'', PInt 0), (''avg_hr'', PNone), (''max_hr'', PNone),
         (''elevation_gain_m'', PFloat 0), (''avg_pace_s'', PNone)],
        Some [(- 0.125, 51.5)]))"
proof -
  have e: "endswith (str_lower ''a.tcx'') ''.tcx''" by (simp add: str_eval)
  have p: "path_join RAW_DIR ''a.tcx'' = ''raw/a.tcx''" by (simp add: str_eval)
  show ?thesis
    by (simp add: extract_file_def Let_def e p tcx_file_def unreadable_def ebind_def parse_tcx_one_point with_pts_def)
qed

lemma extract_json_running: "extract_file example_float example_int (json_file ''b.json'' (PDict [(''sport'', PStr ''running'')])) =
   Some (Inr ([(''sport'', PStr ''Running''), (''duration_s'', PNone), (''distance_m'', PNone),
           (''calories'', PNone), (''avg_hr'', PNone), (''max_hr'', PNone),
           (''elevation_gain_m'', PNone), (''avg_pace_s'', PNone), (''cadence'', PNone)], None))"
proof -
  have e: "\<not> endswith (str_lower ''b.json'') ''.tcx''" "\<not> endswith (str_lower ''b.json'') ''.gpx''"
    "\<not> endswith (str_lower ''b.json'') ''.fit''" "\<not> endswith (str_lower ''b.json'') ''.fit.gz''"
    "endswith (str_lower ''b.json'') ''.json''"
    by (simp_all add: str_eval)
  have n: "normalize_sport (PStr ''running'') = Inr ''Running''"
    by (simp add: sport_eval str_eval Let_def)
  show ?thesis
    by (simp add: extract_file_def Let_def e json_file_def unreadable_def ebind_def load_json_meta_def
        dget_def n json_defaults_def setdefault_def)
qed

lemma extract_unreadable: "extract_file example_float example_int (unreadable ''bad.tcx'') = Some (Inl ParseError)"
proof -
  have e: "endswith (str_lower ''bad.tcx'') ''.tcx''" by (simp add: str_eval)
  show ?thesis
    by (simp add: extract_file_def Let_def e unreadable_def ebind_def)
qed

lemma extract_two_point_gpx: "extract_file example_float example_int (gpx_file ''ride.gpx'' two_point_gpx) =
   Some (Inr ([(''activityId'', PStr ''ride.gpx''), (''sport'', PStr ''Biking''),
               (''start_time'', PStr ''2024-05-01T06:00:00''), (''duration_s'', PNone),
               (''distance_m'', PFloat 1000), (''calories'', PNone), (''avg_hr'', PNone),
               (''max_hr'', PNone), (''elevation_gain_m'', PNone), (''avg_pace_s'', PNone)],
              Some [(0, 51), (1, 52)]))"
proof -
  have e: "\<not> endswith (str_lower ''ride.gpx'') ''.tcx''" "endswith (str_lower ''ride.gpx'') ''.gpx''"
    by (simp_all add: str_eval)
  have p: "path_join RAW_DIR ''ride.gpx'' = ''raw/ride.gpx''" by (simp add: str_eval)
  have c: "\<not> contains (str_lower ''raw/ride.gpx'') ''run''" by (simp add: str_eval)
  have b: "basename ''raw/ride.gpx'' = ''ride.gpx''" by (simp add: str_eval)
  have n: "normalize_sport (PStr ''Biking'') = Inr ''Biking''"
    by (simp add: sport_eval str_eval Let_def)
  show ?thesis
    by (simp add: extract_file_def Let_def e p gpx_file_def unreadable_def ebind_def parse_gpx_def
        two_point_gpx_def c b n with_pts_def)
qed

subsection \<open>C1: one record per parsed file\<close>

text \<open>
  \<^verbatim>\<open>main\<close> of \<^verbatim>\<open>preprocess_tcx.py\<close> tests \<^verbatim>\<open>len(data['coordinates']) < 2\<close> before
  it appends anything: a file that parses with a single point contributes no record to
  the index.
\<close>

theorem preprocess_drops_short_track_counterexample:
  "points_of (preprocess_parse_tcx example_float example_int ''a.tcx'' one_point_tcx) = Inr [(- 0.125, 51.5)]
   \<and> preprocess_main example_float example_int [tcx_file ''a.tcx'' one_point_tcx] = Inr ([], [])"
proof -
  have e: "endswith ''a.tcx'' ''.tcx''" by (simp add: endswith_def)
  show ?thesis
    by (simp add: preprocess_one_point points_of_def preprocess_main_def e tcx_file_def unreadable_def
        preprocess_file_def ebind_def)
qed

text \<open>
  C1 (amended). In the batch loop of \<^verbatim>\<open>normalise_strava.py\<close> every file that its
  extractor parses contributes exactly one record to the index, whatever its coordinate
  sequence is, and a feature only when the sequence is not empty; a file that fails or
  has no recognised suffix contributes nothing. In \<^verbatim>\<open>main\<close> of
  \<^verbatim>\<open>preprocess_tcx.py\<close>, when it completes, the index holds one record and the
  features hold one track for every \<^verbatim>\<open>.tcx\<close> file with at least two coordinates,
  and neither holds anything for a file with fewer.
\<close>

theorem index_one_record_per_parsed_file:
  "index (main_process pf pn files) =
     concat (map (\<lambda>f. case extract_file pf pn f of Some (Inr r) \<Rightarrow> [fst r] | _ \<Rightarrow> []) files)
   \<and> features (main_process pf pn files) =
     concat (map (\<lambda>f. case extract_file pf pn f of
                      Some (Inr r) \<Rightarrow> if pts_truthy (snd r)
                                       then [\<lparr>coordinates = the (snd r), properties = fst r\<rparr>] else []
                    | _ \<Rightarrow> []) files)
   \<and> (preprocess_main pf pn files = Inr out \<longrightarrow>
        snd out = concat (map (\<lambda>f.
            case ebind (as_xml f) (preprocess_parse_tcx pf pn (fname f)) of
              Inr r \<Rightarrow> if length (snd r) < 2 then [] else [fst r]
            | Inl e \<Rightarrow> []) (filter (\<lambda>f. endswith (fname f) ''.tcx'') files))
      \<and> map coordinates (fst out) = concat (map (\<lambda>f.
            case ebind (as_xml f) (preprocess_parse_tcx pf pn (fname f)) of
              Inr r \<Rightarrow> if length (snd r) < 2 then [] else [snd r]
            | Inl e \<Rightarrow> []) (filter (\<lambda>f. endswith (fname f) ''.tcx'') files)))"
  using efold_preprocess_Inr [of pf pn "filter (\<lambda>f. endswith (fname f) ''.tcx'') files" "([], [])" out]
  by (simp add: main_process_def foldl_process_index foldl_process_features preprocess_main_def)

theorem index_one_record_per_parsed_file_witness:
  "length (index (main_process example_float example_int
      [json_file ''b.json'' (PDict [(''sport'', PStr ''running'')]), unreadable ''bad.tcx'',
       tcx_file ''a.tcx'' one_point_tcx])) = 2
   \<and> length (features (main_process example_float example_int
      [json_file ''b.json'' (PDict [(''sport'', PStr ''running'')]), unreadable ''bad.tcx'',
       tcx_file ''a.tcx'' one_point_tcx])) = 1
   \<and> preprocess_main example_float example_int
        [tcx_file ''a.tcx'' one_point_tcx, tcx_file ''c.TCX'' one_point_tcx] = Inr ([], [])"
proof -
  have e: "endswith ''a.tcx'' ''.tcx''" "\<not> endswith ''c.TCX'' ''.tcx''" by (simp_all add: endswith_def)
  have p: "preprocess_main example_float example_int
        [tcx_file ''a.tcx'' one_point_tcx, tcx_file ''c.TCX'' one_point_tcx] = Inr ([], [])"
    by (simp add: preprocess_one_point preprocess_main_def e tcx_file_def unreadable_def preprocess_file_def ebind_def)
  show ?thesis
    using index_one_record_per_parsed_file [of example_float example_int
        "[json_file ''b.json'' (PDict [(''sport'', PStr ''running'')]), unreadable ''bad.tcx'',
          tcx_file ''a.tcx'' one_point_tcx]" "([], [])"]
      index_one_record_per_parsed_file [of example_float example_int
        "[tcx_file ''a.tcx'' one_point_tcx, tcx_file ''c.TCX'' one_point_tcx]" "([], [])"]
    by (simp add: extract_one_point extract_json_running extract_unreadable pts_truthy_def p)
qed

subsection \<open>C2: a failing file\<close>

text \<open>
  \<^verbatim>\<open>main\<close> of \<^verbatim>\<open>preprocess_tcx.py\<close> has no handler: the first file that fails to
  parse ends the run before the merged outputs are written, also when a well-formed
  file follows.
\<close>

theorem preprocess_aborts_counterexample:
  "preprocess_main example_float example_int
     [unreadable ''bad.tcx'', tcx_file ''a.tcx'' one_point_tcx] = Inl ParseError"
proof -
  have e: "endswith ''a.tcx'' ''.tcx''" "endswith ''bad.tcx'' ''.tcx''" by (simp_all add: endswith_def)
  show ?thesis
    by (simp add: preprocess_main_def e tcx_file_def unreadable_def preprocess_file_def ebind_def)
qed

text \<open>
  C2 (amended). In the batch loop of \<^verbatim>\<open>normalise_strava.py\<close> the failure of a file
  is caught and recorded with the name of the file and the cause, the other files are
  processed as if the failing file were not there, and the loop always completes with
  its index and features. \<^verbatim>\<open>main\<close> of \<^verbatim>\<open>preprocess_tcx.py\<close> ends with the
  exception, without its merged outputs, exactly when some \<^verbatim>\<open>.tcx\<close> file fails to
  parse.
\<close>

theorem failure_is_isolated:
  "failures (main_process pf pn files) =
     concat (map (\<lambda>f. case extract_file pf pn f of Some (Inl e) \<Rightarrow> [(fname f, e)] | _ \<Rightarrow> []) files)
   \<and> (extract_file pf pn f = Some (Inl e) \<longrightarrow>
        index (main_process pf pn (before @ f # after)) = index (main_process pf pn (before @ after))
        \<and> features (main_process pf pn (before @ f # after)) = features (main_process pf pn (before @ after))
        \<and> failures (main_process pf pn (before @ f # after)) =
            failures (main_process pf pn before) @ (fname f, e) #
            concat (map (\<lambda>f. case extract_file pf pn f of Some (Inl e) \<Rightarrow> [(fname f, e)] | _ \<Rightarrow> []) after))
   \<and> isl (preprocess_main pf pn files) =
        (\<exists>f \<in> set files. endswith (fname f) ''.tcx''
            \<and> isl (ebind (as_xml f) (preprocess_parse_tcx pf pn (fname f))))"
  by (auto simp add: main_process_def foldl_process_index foldl_process_features foldl_process_failures
      process_file_index process_file_features process_file_failures
      preprocess_main_def efold_preprocess_isl)

theorem failure_is_isolated_witness:
  "failures (main_process example_float example_int
      [unreadable ''bad.tcx'', gpx_file ''ride.gpx'' two_point_gpx]) = [(''bad.tcx'', ParseError)]
   \<and> index (main_process example_float example_int
      [unreadable ''bad.tcx'', gpx_file ''ride.gpx'' two_point_gpx]) =
     index (main_process example_float example_int [gpx_file ''ride.gpx'' two_point_gpx])
   \<and> features (main_process example_float example_int
      [unreadable ''bad.tcx'', gpx_file ''ride.gpx'' two_point_gpx]) =
     features (main_process example_float example_int [gpx_file ''ride.gpx'' two_point_gpx])
   \<and> isl (preprocess_main example_float example_int [unreadable ''bad.tcx''])"
proof -
  have e: "endswith (fname (unreadable ''bad.tcx'')) ''.tcx''"
    "isl (ebind (as_xml (unreadable ''bad.tcx''))
        (preprocess_parse_tcx example_float example_int (fname (unreadable ''bad.tcx''))))"
    by (simp_all add: endswith_def unreadable_def ebind_def)
  have f: "fname (unreadable ''bad.tcx'') = ''bad.tcx''"
    by (simp add: unreadable_def)
  show ?thesis
    using failure_is_isolated [of example_float example_int
        "[unreadable ''bad.tcx'', gpx_file ''ride.gpx'' two_point_gpx]"
        "unreadable ''bad.tcx''" ParseError "[]" "[gpx_file ''ride.gpx'' two_point_gpx]"]
      failure_is_isolated [of example_float example_int "[unreadable ''bad.tcx'']"
        "unreadable ''bad.tcx''" ParseError "[]" "[]"] e
    by (simp add: extract_unreadable extract_two_point_gpx f)
qed


subsection \<open>The TCX extractors\<close>

lemma np_diff_Cons2: "np_diff (a # b # xs) = (b - a) # np_diff (b # xs)"
  by (simp add: np_diff_def)

lemma positive_gain_simps:
  "positive_gain [] = 0" "positive_gain [a] = 0"
  "positive_gain (a # b # xs) = (if a < b then b - a else 0) + positive_gain (b # xs)"
  by (simp_all add: positive_gain_def np_diff_def)

lemma foldl_elev_step_Some:
  "foldl elev_step (Some p, g) es =
     (Some (last (p # es)),
      foldl (\<lambda>g d. fl (g + d)) g
        (map (\<lambda>(a, b). fl (b - a)) (filter (\<lambda>(a, b). a < b) (zip (p # es) es))))"
  by (induction es arbitrary: p g) (simp_all add: elev_step_def)

lemma foldl_elev_step_None: "snd (foldl elev_step (None, 0) es) = float_gain es"
  by (cases es) (simp_all add: elev_step_def float_gain_def foldl_elev_step_Some)

lemma zip_tl_snoc: "zip (y # zs @ [b]) (zs @ [b]) = zip (y # zs) zs @ [(last (y # zs), b)]"
  by (induction zs arbitrary: y) simp_all

lemma float_gain_snoc:
  "float_gain (xs @ [a, b]) =
     (if a < b then fl (float_gain (xs @ [a]) + fl (b - a)) else float_gain (xs @ [a]))"
proof (cases xs)
  case Nil
  then show ?thesis by (simp add: float_gain_def)
next
  case (Cons y ys)
  have "zip (y # (ys @ [a]) @ [b]) ((ys @ [a]) @ [b]) = zip (y # ys @ [a]) (ys @ [a]) @ [(a, b)]"
    using zip_tl_snoc [of y "ys @ [a]" b] by simp
  then show ?thesis
    by (simp add: Cons float_gain_def)
qed

lemma float_gain_simps: "float_gain [] = 0" "float_gain [a] = 0"
  by (simp_all add: float_gain_def)

lemma tcx_trackpoint_elev:
  assumes "tcx_trackpoint pf (pts, el) tp = Inr (pts', el')"
  shows "el' = foldl elev_step el (tcx_altitudes pf [tp])"
  using assms
  by (auto simp add: tcx_trackpoint_def tcx_altitudes_def ebind_def Let_def py_conv_def
      split: option.splits sum.splits)

lemma tcx_altitudes_Cons: "tcx_altitudes pf (tp # tps) = tcx_altitudes pf [tp] @ tcx_altitudes pf tps"
  by (simp add: tcx_altitudes_def)

lemma efold_tcx_trackpoint_elev:
  assumes "efold (tcx_trackpoint pf) tps st = Inr st'"
  shows "snd st' = foldl elev_step (snd st) (tcx_altitudes pf tps)"
  using assms
proof (induction tps arbitrary: st)
  case Nil
  then show ?case by (simp add: tcx_altitudes_def)
next
  case (Cons tp tps)
  from Cons.prems obtain st1 where
    s: "tcx_trackpoint pf st tp = Inr st1" "efold (tcx_trackpoint pf) tps st1 = Inr st'"
    by (auto split: sum.splits)
  from s(1) have "snd st1 = foldl elev_step (snd st) (tcx_altitudes pf [tp])"
    using tcx_trackpoint_elev [of pf "fst st" "snd st" tp "fst st1" "snd st1"] by simp
  with Cons.IH [OF s(2)] show ?case
    by (simp add: tcx_altitudes_Cons [of pf tp tps] del: foldl_Cons)
qed

lemma parse_tcx_InrE:
  assumes "parse_tcx pf pn path xroot = Inr (m, pts)"
  obtains activity sport_name times dists cals avg_hrs max_hrs fin lap0 laps where
    "find_desc ''Activity'' xroot = Some activity"
    "normalize_sport (PStr (attr_get_default activity ''Sport'' ''Unknown'')) = Inr sport_name"
    "findall_desc ''Lap'' xroot = lap0 # laps"
    "emap (\<lambda>l. py_conv pf (attr_get_default l ''TotalTimeSeconds'' ''0'')) (lap0 # laps) = Inr times"
    "emap (\<lambda>l. py_conv pf (attr_get_default l ''DistanceMeters'' ''0'')) (lap0 # laps) = Inr dists"
    "emap (\<lambda>l. py_conv_opt pn (text_or (find_child ''Calories'' l) (Some ''0''))) (lap0 # laps) = Inr cals"
    "lap_hr pn ''AverageHeartRateBpm'' (lap0 # laps) = Inr avg_hrs"
    "lap_hr pn ''MaximumHeartRateBpm'' (lap0 # laps) = Inr max_hrs"
    "efold (tcx_trackpoint pf) (findall_desc ''Trackpoint'' xroot) ([], (None, 0)) = Inr fin"
    "pts = fst fin"
    "m = [(''activityId'', PStr (basename path)),
          (''sport'', PStr sport_name),
          (''start_time'', opt_str (attr_get lap0 ''StartTime'')),
          (''duration_s'', PFloat (py_sum times)),
          (''distance_m'', PFloat (py_sum dists)),
          (''calories'', PInt (sum_list cals)),
          (''avg_hr'', (if avg_hrs \<noteq> [] \<and> mean avg_hrs \<noteq> 0
                        then PFloat (py_round1 (fl (mean avg_hrs))) else PNone)),
          (''max_hr'', (if max_hrs \<noteq> [] then PInt (py_max max_hrs) else PNone)),
          (''elevation_gain_m'', PFloat (py_round1 (snd (snd fin)))),
          (''avg_pace_s'', (if py_sum dists \<noteq> 0 \<and> py_sum times \<noteq> 0
                            then PFloat (py_round1 (fl (py_sum times / fl (py_sum dists / 1000))))
                            else PNone))]"
proof -
  from assms obtain activity where a: "find_desc ''Activity'' xroot = Some activity"
    by (auto simp add: parse_tcx_def split: option.splits)
  from assms a obtain sport_name where
    s: "normalize_sport (PStr (attr_get_default activity ''Sport'' ''Unknown'')) = Inr sport_name"
    by (cases "normalize_sport (PStr (attr_get_default activity ''Sport'' ''Unknown''))")
       (auto simp add: parse_tcx_def ebind_def)
  let ?laps = "findall_desc ''Lap'' xroot"
  from assms a s obtain times where
    t: "emap (\<lambda>l. py_conv pf (attr_get_default l ''TotalTimeSeconds'' ''0'')) ?laps = Inr times"
    by (cases "emap (\<lambda>l. py_conv pf (attr_get_default l ''TotalTimeSeconds'' ''0'')) ?laps")
       (auto simp add: parse_tcx_def ebind_def Let_def)
  from assms a s t obtain dists where
    d: "emap (\<lambda>l. py_conv pf (attr_get_default l ''DistanceMeters'' ''0'')) ?laps = Inr dists"
    by (cases "emap (\<lambda>l. py_conv pf (attr_get_default l ''DistanceMeters'' ''0'')) ?laps")
       (auto simp add: parse_tcx_def ebind_def Let_def)
  from assms a s t d obtain cals where
    c: "emap (\<lambda>l. py_conv_opt pn (text_or (find_child ''Calories'' l) (Some ''0''))) ?laps = Inr cals"
    by (cases "emap (\<lambda>l. py_conv_opt pn (text_or (find_child ''Calories'' l) (Some ''0''))) ?laps")
       (auto simp add: parse_tcx_def ebind_def Let_def)
  from assms a s t d c obtain avg_hrs where
    ah: "lap_hr pn ''AverageHeartRateBpm'' ?laps = Inr avg_hrs"
    by (cases "lap_hr pn ''AverageHeartRateBpm'' ?laps")
       (auto simp add: parse_tcx_def ebind_def Let_def)
  from assms a s t d c ah obtain max_hrs where
    mh: "lap_hr pn ''MaximumHeartRateBpm'' ?laps = Inr max_hrs"
    by (cases "lap_hr pn ''MaximumHeartRateBpm'' ?laps")
       (auto simp add: parse_tcx_def ebind_def Let_def)
  from assms a s t d c ah mh obtain fin where
    f: "efold (tcx_trackpoint pf) (findall_desc ''Trackpoint'' xroot) ([], (None, 0)) = Inr fin"
    by (cases "efold (tcx_trackpoint pf) (findall_desc ''Trackpoint'' xroot) ([], (None, 0))")
       (auto simp add: parse_tcx_def ebind_def Let_def)
  from assms a s t d c ah mh f obtain lap0 laps where
    l: "?laps = lap0 # laps"
    by (cases ?laps) (auto simp add: parse_tcx_def ebind_def Let_def)
  from assms a s t d c ah mh f l have
    "pts = fst fin"
    "m = [(''activityId'', PStr (basename path)),
          (''sport'', PStr sport_name),
          (''start_time'', opt_str (attr_get lap0 ''StartTime'')),
          (''duration_s'', PFloat (py_sum times)),
          (''distance_m'', PFloat (py_sum dists)),
          (''calories'', PInt (sum_list cals)),
          (''avg_hr'', (if avg_hrs \<noteq> [] \<and> mean avg_hrs \<noteq> 0
                        then PFloat (py_round1 (fl (mean avg_hrs))) else PNone)),
          (''max_hr'', (if max_hrs \<noteq> [] then PInt (py_max max_hrs) else PNone)),
          (''elevation_gain_m'', PFloat (py_round1 (snd (snd fin)))),
          (''avg_pace_s'', (if py_sum dists \<noteq> 0 \<and> py_sum times \<noteq> 0
                            then PFloat (py_round1 (fl (py_sum times / fl (py_sum dists / 1000))))
                            else PNone))]"
    by (auto simp add: parse_tcx_def ebind_def Let_def opt_int_def fl_eq_0_iff)
  with a s t d c ah mh f l that show ?thesis
    by metis
qed

lemma tp_values_append: "tp_values p g (xs @ ys) = tp_values p g xs @ tp_values p g ys"
  by (simp add: tp_values_def)

lemma tp_values_Nil: "tp_values p g [] = []"
  by (simp add: tp_values_def)

lemma tp_values_concat: "tp_values p g (concat xss) = concat (map (tp_values p g) xss)"
  by (induction xss) (simp_all add: tp_values_Nil tp_values_append)

lemma preprocess_trackpoint_Inr:
  assumes "preprocess_trackpoint pf pn st tp = Inr st'"
  shows "hrs st' = hrs st @ tp_values pn heart_rate_text [tp]
         \<and> alts st' = alts st @ tp_values pf altitude_text [tp]
         \<and> cads st' = cads st @ tp_values pn cadence_text [tp]
         \<and> length (coords st') = length (coords st) + length (filter has_position [tp])
         \<and> total_dist st' = total_dist st \<and> total_sec st' = total_sec st
         \<and> total_cal st' = total_cal st \<and> start_time st' = start_time st"
proof (cases "has_position tp")
  case False
  then have c: "\<not> (str_truthy (text_or (find_path ''Position'' ''LatitudeDegrees'' tp) None)
      \<and> str_truthy (text_or (find_path ''Position'' ''LongitudeDegrees'' tp) None))"
    by (simp add: has_position_def)
  have "st' = st"
    using assms c unfolding preprocess_trackpoint_def Let_def by (simp only: if_False sum.inject)
  with False show ?thesis
    by (simp add: tp_values_def)
next
  case True
  with assms obtain x y hr alt cad where
    v: "sample pn (heart_rate_text tp) = Inr hr" "sample pf (altitude_text tp) = Inr alt"
       "sample pn (cadence_text tp) = Inr cad"
       "st' = st\<lparr>coords := coords st @ [(x, y)], hrs := hrs st @ hr,
                  alts := alts st @ alt, cads := cads st @ cad\<rparr>"
    by (auto simp add: preprocess_trackpoint_def Let_def has_position_def ebind_def
        heart_rate_text_def altitude_text_def cadence_text_def split: sum.splits)
  with True show ?thesis
    by (simp add: tp_values_def)
qed

lemma efold_preprocess_trackpoint:
  assumes "efold (preprocess_trackpoint pf pn) tps st = Inr st'"
  shows "hrs st' = hrs st @ tp_values pn heart_rate_text tps
         \<and> alts st' = alts st @ tp_values pf altitude_text tps
         \<and> cads st' = cads st @ tp_values pn cadence_text tps
         \<and> length (coords st') = length (coords st) + length (filter has_position tps)
         \<and> total_dist st' = total_dist st \<and> total_sec st' = total_sec st
         \<and> total_cal st' = total_cal st \<and> start_time st' = start_time st"
  using assms
proof (induction tps arbitrary: st)
  case Nil
  then show ?case by (simp add: tp_values_Nil)
next
  case (Cons tp tps)
  from Cons.prems obtain st1 where
    s: "preprocess_trackpoint pf pn st tp = Inr st1" "efold (preprocess_trackpoint pf pn) tps st1 = Inr st'"
    by (auto split: sum.splits)
  have a: "tp_values p g (tp # tps) = tp_values p g [tp] @ tp_values p g tps" for p :: "string \<Rightarrow> 'b option" and g
    using tp_values_append [of p g "[tp]" tps] by simp
  from preprocess_trackpoint_Inr [OF s(1)] Cons.IH [OF s(2)] show ?case
    by (simp add: a)
qed

lemma preprocess_lap_Inr:
  assumes "preprocess_lap pf pn st lap = Inr st'"
  shows "hrs st' = hrs st @ tp_values pn heart_rate_text (findall_desc ''Trackpoint'' lap)
         \<and> alts st' = alts st @ tp_values pf altitude_text (findall_desc ''Trackpoint'' lap)
         \<and> cads st' = cads st @ tp_values pn cadence_text (findall_desc ''Trackpoint'' lap)"
proof -
  from assms obtain st1 where
    "efold (preprocess_trackpoint pf pn) (findall_desc ''Trackpoint'' lap) st1 = Inr st'"
    "hrs st1 = hrs st" "alts st1 = alts st" "cads st1 = cads st"
    by (auto simp add: preprocess_lap_def Let_def ebind_def split: sum.splits if_splits)
  with efold_preprocess_trackpoint [of pf pn "findall_desc ''Trackpoint'' lap" st1 st']
  show ?thesis by simp
qed

lemma efold_preprocess_lap:
  assumes "efold (preprocess_lap pf pn) laps st = Inr st'"
  shows "hrs st' = hrs st @ tp_values pn heart_rate_text (concat (map (findall_desc ''Trackpoint'') laps))
         \<and> alts st' = alts st @ tp_values pf altitude_text (concat (map (findall_desc ''Trackpoint'') laps))
         \<and> cads st' = cads st @ tp_values pn cadence_text (concat (map (findall_desc ''Trackpoint'') laps))"
  using assms
proof (induction laps arbitrary: st)
  case Nil
  then show ?case by (simp add: tp_values_Nil)
next
  case (Cons lap laps)
  from Cons.prems obtain st1 where
    s: "preprocess_lap pf pn st lap = Inr st1" "efold (preprocess_lap pf pn) laps st1 = Inr st'"
    by (auto split: sum.splits)
  from preprocess_lap_Inr [OF s(1)] Cons.IH [OF s(2)] show ?case
    by (simp add: tp_values_append)
qed

lemma preprocess_parse_tcx_InrE:
  assumes "preprocess_parse_tcx pf pn name xroot = Inr (m, pts)"
  obtains st sport_attr where
    "efold (preprocess_lap pf pn) (findall_desc ''Lap'' xroot)
       \<lparr>start_time = None, total_dist = 0, total_sec = 0, total_cal = 0,
        coords = [], hrs = [], alts = [], cads = []\<rparr> = Inr st"
    "pts = coords st"
    "m = [(''activityId'', PStr (stem name)),
          (''start_time'', opt_str (start_time st)),
          (''sport'', PStr sport_attr),
          (''distance_m'', PFloat (total_dist st)),
          (''duration_s'', PFloat (total_sec st)),
          (''avg_hr'', (if hrs st \<noteq> [] then PInt (py_trunc (mean (hrs st))) else PNone)),
          (''max_hr'', (if hrs st \<noteq> [] then PInt (py_max (hrs st)) else PNone)),
          (''avg_pace_s'', (if 0 < total_dist st then PFloat (total_sec st / (total_dist st / 1000)) else PNone)),
          (''elevation_gain_m'', (if 1 < length (alts st) then PFloat (positive_gain (alts st)) else PNone)),
          (''cadence'', (if cads st \<noteq> [] then PInt (py_trunc (mean (cads st))) else PNone)),
          (''calories'', PFloat (total_cal st))]"
  using assms
  by (auto simp add: preprocess_parse_tcx_def ebind_def Let_def opt_int_def opt_float_def split: sum.splits)

lemma preprocess_parse_tcx_samples:
  assumes "efold (preprocess_lap pf pn) (findall_desc ''Lap'' xroot)
       \<lparr>start_time = None, total_dist = 0, total_sec = 0, total_cal = 0,
        coords = [], hrs = [], alts = [], cads = []\<rparr> = Inr st"
  shows "hrs st = tp_values pn heart_rate_text (lap_trackpoints xroot)"
    "alts st = tp_values pf altitude_text (lap_trackpoints xroot)"
    "cads st = tp_values pn cadence_text (lap_trackpoints xroot)"
  using efold_preprocess_lap [OF assms] by (simp_all add: lap_trackpoints_def)

lemma py_max_Max: "xs \<noteq> [] \<Longrightarrow> py_max xs = Max (set xs)"
proof (cases xs)
  case Nil
  assume "xs \<noteq> []"
  with Nil show ?thesis by simp
next
  case (Cons a list)
  show ?thesis
    using Max.set_eq_fold [of a list] by (simp add: Cons py_max_def)
qed

lemmas doc_eval = position_def hr_lap_def hr_tcx_def alt_tp_def climb_tcx_def lap_tcx_def
  attr_lap_tcx_def

lemmas ns_eval = parse_tcx_def tcx_trackpoint_def lap_hr_def xml_eval err_eval doc_eval
  sport_eval str_eval opt_str_def opt_int_def elev_step_def py_sum_def fl_0 fl_eq_0_iff
  py_round1_0 mean_def py_max_def example_float_def example_int_def field_def dget_def

lemmas pt_eval = preprocess_parse_tcx_def preprocess_lap_def preprocess_trackpoint_def sample_def
  str_truthy_def xml_eval err_eval doc_eval stem_def opt_str_def opt_int_def opt_float_def
  mean_def py_max_def py_trunc_def positive_gain_def np_diff_def
  example_float_def example_int_def field_def dget_def

lemmas sample_eval = tp_values_def has_position_def lap_trackpoints_def heart_rate_text_def
  altitude_text_def cadence_text_def tcx_altitudes_def sample_def str_truthy_def xml_eval err_eval
  doc_eval example_float_def example_int_def

subsection \<open>C5: heart rate of a TCX file\<close>

lemma hr_values: "py_round1 (fl (452 / 3)) = 1507 / 10" "fl (452 / 3) \<noteq> 1507 / 10"
  "py_round1 (fl (mean [150, 151, 151])) = 1507 / 10" "mean [150, 151, 151] \<noteq> 0"
  "py_trunc (mean [100, 120, 120]) = 113"
  by code_simp+

text \<open>
  Three laps with the averages 150, 151 and 151: their mean is 452/3, as a float
  150.66666666666666, and \<^verbatim>\<open>parse_tcx\<close> of \<^verbatim>\<open>normalise_strava.py\<close> returns that
  mean rounded to one decimal, 150.7. \<^verbatim>\<open>parse_tcx\<close> of \<^verbatim>\<open>preprocess_tcx.py\<close> does
  not read the lap averages: it returns the truncated mean of the heart-rate samples of
  the trackpoints, 113.
\<close>

theorem lap_mean_is_rounded_counterexample:
  "lap_hr example_int ''AverageHeartRateBpm'' (findall_desc ''Lap'' hr_tcx) = Inr [150, 151, 151]
   \<and> mean [150, 151, 151] = 452 / 3
   \<and> fl (452 / 3) \<noteq> 1507 / 10
   \<and> field ''avg_hr'' (parse_tcx example_float example_int ''raw/h.tcx'' hr_tcx) = Inr (PFloat (1507 / 10))
   \<and> field ''avg_hr'' (preprocess_parse_tcx example_float example_int ''h.tcx'' hr_tcx) = Inr (PInt 113)"
proof -
  have "lap_hr example_int ''AverageHeartRateBpm'' (findall_desc ''Lap'' hr_tcx) = Inr [150, 151, 151]"
    by (simp add: lap_hr_def xml_eval doc_eval example_int_def)
  moreover have "mean [150, 151, 151] = 452 / 3"
    by (simp add: mean_def)
  moreover have "field ''avg_hr'' (parse_tcx example_float example_int ''raw/h.tcx'' hr_tcx) = Inr (PFloat (1507 / 10))"
    by (simp add: ns_eval hr_values)
  moreover have "field ''avg_hr'' (preprocess_parse_tcx example_float example_int ''h.tcx'' hr_tcx) = Inr (PInt 113)"
    by (simp add: pt_eval)
  ultimately show ?thesis using hr_values(2) by blast
qed

text \<open>
  C5 (amended). For every TCX input that \<^verbatim>\<open>parse_tcx\<close> of \<^verbatim>\<open>normalise_strava.py\<close>
  extracts, \<^verbatim>\<open>avg_hr\<close> is the arithmetic mean of the per-lap average heart-rate values
  (a mean of means), computed as a float and rounded to one decimal, and \<^verbatim>\<open>max_hr\<close>
  is the maximum of the per-lap maxima; \<^verbatim>\<open>avg_hr\<close> is absent when no lap reports an
  average or the mean is 0, \<^verbatim>\<open>max_hr\<close> when no lap reports a maximum. For every TCX
  input that \<^verbatim>\<open>parse_tcx\<close> of \<^verbatim>\<open>preprocess_tcx.py\<close> extracts, \<^verbatim>\<open>avg_hr\<close> is the
  mean, truncated to an integer, and \<^verbatim>\<open>max_hr\<close> the maximum of the heart-rate samples
  of the trackpoints that have a position; both are absent when there is no sample.
  The rounding acts on the float: twenty lap averages with the sum 3007 have the mean
  150.35, the float nearest to it lies below it, and the result is 150.3.
\<close>

theorem heart_rate_aggregation:
  "(parse_tcx pf pn path xroot = Inr (m, pts) \<longrightarrow>
      (\<exists>avg_hrs max_hrs.
          lap_hr pn ''AverageHeartRateBpm'' (findall_desc ''Lap'' xroot) = Inr avg_hrs
        \<and> lap_hr pn ''MaximumHeartRateBpm'' (findall_desc ''Lap'' xroot) = Inr max_hrs
        \<and> dget m ''avg_hr'' = (if avg_hrs = [] \<or> mean avg_hrs = 0 then PNone
                                 else PFloat (py_round1 (fl (mean avg_hrs))))
        \<and> dget m ''max_hr'' = (if max_hrs = [] then PNone else PInt (Max (set max_hrs)))))
   \<and> (preprocess_parse_tcx pf pn name xroot = Inr (m', pts') \<longrightarrow>
        dget m' ''avg_hr'' =
          (if tp_values pn heart_rate_text (lap_trackpoints xroot) = [] then PNone
           else PInt (py_trunc (mean (tp_values pn heart_rate_text (lap_trackpoints xroot)))))
      \<and> dget m' ''max_hr'' =
          (if tp_values pn heart_rate_text (lap_trackpoints xroot) = [] then PNone
           else PInt (Max (set (tp_values pn heart_rate_text (lap_trackpoints xroot))))))
   \<and> mean twenty_laps = 3007 / 20
   \<and> py_round1 (fl (mean twenty_laps)) = 1503 / 10"
proof (intro conjI impI)
  assume "parse_tcx pf pn path xroot = Inr (m, pts)"
  then obtain avg_hrs max_hrs where
    "lap_hr pn ''AverageHeartRateBpm'' (findall_desc ''Lap'' xroot) = Inr avg_hrs"
    "lap_hr pn ''MaximumHeartRateBpm'' (findall_desc ''Lap'' xroot) = Inr max_hrs"
    "dget m ''avg_hr'' = (if avg_hrs \<noteq> [] \<and> mean avg_hrs \<noteq> 0
                          then PFloat (py_round1 (fl (mean avg_hrs))) else PNone)"
    "dget m ''max_hr'' = (if max_hrs \<noteq> [] then PInt (py_max max_hrs) else PNone)"
    by (elim parse_tcx_InrE) (simp add: dget_def)
  then show "\<exists>avg_hrs max_hrs.
          lap_hr pn ''AverageHeartRateBpm'' (findall_desc ''Lap'' xroot) = Inr avg_hrs
        \<and> lap_hr pn ''MaximumHeartRateBpm'' (findall_desc ''Lap'' xroot) = Inr max_hrs
        \<and> dget m ''avg_hr'' = (if avg_hrs = [] \<or> mean avg_hrs = 0 then PNone
                                 else PFloat (py_round1 (fl (mean avg_hrs))))
        \<and> dget m ''max_hr'' = (if max_hrs = [] then PNone else PInt (Max (set max_hrs)))"
    by (auto simp add: py_max_Max)
next
  assume a: "preprocess_parse_tcx pf pn name xroot = Inr (m', pts')"
  then obtain st where
    st: "efold (preprocess_lap pf pn) (findall_desc ''Lap'' xroot)
       \<lparr>start_time = None, total_dist = 0, total_sec = 0, total_cal = 0,
        coords = [], hrs = [], alts = [], cads = []\<rparr> = Inr st"
    and m: "dget m' ''avg_hr'' = (if hrs st \<noteq> [] then PInt (py_trunc (mean (hrs st))) else PNone)"
      "dget m' ''max_hr'' = (if hrs st \<noteq> [] then PInt (py_max (hrs st)) else PNone)"
    by (elim preprocess_parse_tcx_InrE) (simp add: dget_def)
  from preprocess_parse_tcx_samples(1) [OF st] m
  show "dget m' ''avg_hr'' =
          (if tp_values pn heart_rate_text (lap_trackpoints xroot) = [] then PNone
           else PInt (py_trunc (mean (tp_values pn heart_rate_text (lap_trackpoints xroot)))))"
    by simp
  from preprocess_parse_tcx_samples(1) [OF st] m
  show "dget m' ''max_hr'' =
          (if tp_values pn heart_rate_text (lap_trackpoints xroot) = [] then PNone
           else PInt (Max (set (tp_values pn heart_rate_text (lap_trackpoints xroot)))))"
    by (simp add: py_max_Max)
next
  show "mean twenty_laps = 3007 / 20"
    by code_simp
next
  show "py_round1 (fl (mean twenty_laps)) = 1503 / 10"
    by code_simp
qed

theorem heart_rate_aggregation_witness:
  "field ''avg_hr'' (parse_tcx example_float example_int ''raw/h.tcx'' hr_tcx) = Inr (PFloat (1507 / 10))
   \<and> field ''max_hr'' (parse_tcx example_float example_int ''raw/h.tcx'' hr_tcx) = Inr (PInt 180)
   \<and> field ''avg_hr'' (preprocess_parse_tcx example_float example_int ''h.tcx'' hr_tcx) = Inr (PInt 113)
   \<and> field ''max_hr'' (preprocess_parse_tcx example_float example_int ''h.tcx'' hr_tcx) = Inr (PInt 120)
   \<and> field ''avg_hr'' (parse_tcx example_float example_int ''raw/a.tcx'' one_point_tcx) = Inr PNone"
proof -
  have "\<exists>m pts. parse_tcx example_float example_int ''raw/h.tcx'' hr_tcx = Inr (m, pts)"
    by (simp add: ns_eval)
  then obtain m pts where e1: "parse_tcx example_float example_int ''raw/h.tcx'' hr_tcx = Inr (m, pts)"
    by blast
  have "\<exists>m pts. preprocess_parse_tcx example_float example_int ''h.tcx'' hr_tcx = Inr (m, pts)"
    by (simp add: pt_eval)
  then obtain m' pts' where
    e2: "preprocess_parse_tcx example_float example_int ''h.tcx'' hr_tcx = Inr (m', pts')"
    by blast
  have "\<exists>m pts. parse_tcx example_float example_int ''raw/a.tcx'' one_point_tcx = Inr (m, pts)"
    by (simp add: parse_tcx_one_point)
  then obtain m0 pts0 where
    e3: "parse_tcx example_float example_int ''raw/a.tcx'' one_point_tcx = Inr (m0, pts0)"
    by blast
  have l: "lap_hr example_int ''AverageHeartRateBpm'' (findall_desc ''Lap'' hr_tcx) = Inr [150, 151, 151]"
    "lap_hr example_int ''MaximumHeartRateBpm'' (findall_desc ''Lap'' hr_tcx) = Inr [160, 180, 160]"
    "lap_hr example_int ''AverageHeartRateBpm'' (findall_desc ''Lap'' one_point_tcx) = Inr []"
    by (simp_all add: lap_hr_def xml_eval doc_eval example_int_def one_point_desc)
  have t: "tp_values example_int heart_rate_text (lap_trackpoints hr_tcx) = [100, 120, 120]"
    by (simp add: sample_eval)
  from heart_rate_aggregation [where pf = example_float and pn = example_int
      and path = "''raw/h.tcx''" and xroot = hr_tcx and m = m and pts = pts
      and name = "''h.tcx''" and m' = m' and pts' = pts'] e1 e2 l t hr_values(3,4,5)
  have a: "dget m ''avg_hr'' = PFloat (1507 / 10)" "dget m ''max_hr'' = PInt 180"
    "dget m' ''avg_hr'' = PInt 113" "dget m' ''max_hr'' = PInt 120"
    by auto
  from heart_rate_aggregation [where pf = example_float and pn = example_int
      and path = "''raw/a.tcx''" and xroot = one_point_tcx and m = m0 and pts = pts0
      and name = "''h.tcx''" and m' = m' and pts' = pts'] e3 l
  have b: "dget m0 ''avg_hr'' = PNone"
    by auto
  from a b show ?thesis
    by (simp add: field_def e1 e2 e3)
qed

subsection \<open>C6: elevation gain of a TCX file\<close>

lemma gain_values: "py_round1 (float_gain [100, 105, 102, 110]) = 13"
  "positive_gain [100, 105, 102, 110] = 13"
  "py_round1 (float_gain [100, fl (2007 / 20)]) = 3 / 10"
  "py_round1 (21 / 4) = 26 / 5"
  by code_simp+

text \<open>
  \<^verbatim>\<open>parse_tcx\<close> of \<^verbatim>\<open>preprocess_tcx.py\<close> does not round: for the altitudes 100 and
  105.25 it returns 5.25, where rounding to one decimal gives 5.2; and for a single
  altitude sample it returns \<^verbatim>\<open>None\<close>, not a sum.
\<close>

theorem preprocess_gain_unrounded_counterexample:
  "field ''elevation_gain_m''
     (preprocess_parse_tcx example_float example_int ''c.tcx'' (climb_tcx [''100'', ''105.25'']))
     = Inr (PFloat (21 / 4))
   \<and> py_round1 (21 / 4) = 26 / 5
   \<and> field ''elevation_gain_m''
     (preprocess_parse_tcx example_float example_int ''c.tcx'' (climb_tcx [''100''])) = Inr PNone"
proof -
  have "field ''elevation_gain_m''
     (preprocess_parse_tcx example_float example_int ''c.tcx'' (climb_tcx [''100'', ''105.25'']))
     = Inr (PFloat (21 / 4))"
    by (simp add: pt_eval)
  moreover have "field ''elevation_gain_m''
     (preprocess_parse_tcx example_float example_int ''c.tcx'' (climb_tcx [''100''])) = Inr PNone"
    by (simp add: pt_eval)
  ultimately show ?thesis using gain_values(4) by blast
qed

text \<open>
  C6 (amended). For every TCX input that \<^verbatim>\<open>parse_tcx\<close> of \<^verbatim>\<open>normalise_strava.py\<close>
  extracts, \<^verbatim>\<open>elevation_gain_m\<close> is the sum of the strictly positive consecutive
  altitude differences over the trackpoints that have a position and a time, in
  document order, rounded to one decimal (a descent is never subtracted, and each
  sample is compared with the one just before it); the differences and the sum are
  computed in floats, in the order of the walk, and the rounding acts on that float. For
  \<^verbatim>\<open>parse_tcx\<close> of \<^verbatim>\<open>preprocess_tcx.py\<close> it is the sum of the strictly positive
  consecutive differences of the altitude samples of the trackpoints that have a
  position, not rounded, and absent when there are fewer than two samples. The
  altitudes 100, 105, 102, 110 give 13; the altitudes 100 and 100.35 give 0.3 in
  \<^verbatim>\<open>normalise_strava.py\<close>, because the float nearest to 100.35 lies below it.
\<close>

theorem elevation_gain_positive_deltas:
  "(parse_tcx pf pn path xroot = Inr (m, pts) \<longrightarrow>
      dget m ''elevation_gain_m'' =
        PFloat (py_round1 (float_gain (tcx_altitudes pf (findall_desc ''Trackpoint'' xroot)))))
   \<and> (preprocess_parse_tcx pf pn name xroot = Inr (m', pts') \<longrightarrow>
        dget m' ''elevation_gain_m'' =
          (if 1 < length (tp_values pf altitude_text (lap_trackpoints xroot))
           then PFloat (positive_gain (tp_values pf altitude_text (lap_trackpoints xroot))) else PNone))
   \<and> float_gain [] = 0 \<and> float_gain [a] = 0
   \<and> float_gain (ys @ [a, b]) =
        (if a < b then fl (float_gain (ys @ [a]) + fl (b - a)) else float_gain (ys @ [a]))
   \<and> positive_gain [] = 0 \<and> positive_gain [a] = 0
   \<and> positive_gain (a # b # xs) = (if a < b then b - a else 0) + positive_gain (b # xs)
   \<and> py_round1 (float_gain [100, 105, 102, 110]) = 13
   \<and> positive_gain [100, 105, 102, 110] = 13
   \<and> py_round1 (float_gain [100, fl (2007 / 20)]) = 3 / 10"
proof (intro conjI impI)
  assume "parse_tcx pf pn path xroot = Inr (m, pts)"
  then obtain fin where
    f: "efold (tcx_trackpoint pf) (findall_desc ''Trackpoint'' xroot) ([], (None, 0)) = Inr fin"
    and m: "dget m ''elevation_gain_m'' = PFloat (py_round1 (snd (snd fin)))"
    by (elim parse_tcx_InrE) (simp add: dget_def)
  from efold_tcx_trackpoint_elev [OF f] m
  show "dget m ''elevation_gain_m'' =
        PFloat (py_round1 (float_gain (tcx_altitudes pf (findall_desc ''Trackpoint'' xroot))))"
    by (simp add: foldl_elev_step_None)
next
  assume "preprocess_parse_tcx pf pn name xroot = Inr (m', pts')"
  then obtain st where
    st: "efold (preprocess_lap pf pn) (findall_desc ''Lap'' xroot)
       \<lparr>start_time = None, total_dist = 0, total_sec = 0, total_cal = 0,
        coords = [], hrs = [], alts = [], cads = []\<rparr> = Inr st"
    and m: "dget m' ''elevation_gain_m'' =
        (if 1 < length (alts st) then PFloat (positive_gain (alts st)) else PNone)"
    by (elim preprocess_parse_tcx_InrE) (simp add: dget_def)
  from preprocess_parse_tcx_samples(2) [OF st] m
  show "dget m' ''elevation_gain_m'' =
          (if 1 < length (tp_values pf altitude_text (lap_trackpoints xroot))
           then PFloat (positive_gain (tp_values pf altitude_text (lap_trackpoints xroot))) else PNone)"
    by simp
next
  show "float_gain (ys @ [a, b]) =
        (if a < b then fl (float_gain (ys @ [a]) + fl (b - a)) else float_gain (ys @ [a]))"
    by (rule float_gain_snoc)
next
  show "py_round1 (float_gain [100, 105, 102, 110]) = 13"
    by (rule gain_values)
next
  show "positive_gain [100, 105, 102, 110] = 13"
    by (rule gain_values)
next
  show "py_round1 (float_gain [100, fl (2007 / 20)]) = 3 / 10"
    by (rule gain_values)
qed (simp_all add: positive_gain_simps float_gain_simps)

theorem elevation_gain_positive_deltas_witness:
  "field ''elevation_gain_m''
     (parse_tcx example_float example_int ''raw/c.tcx'' (climb_tcx [''100'', ''105'', ''102'', ''110'']))
     = Inr (PFloat 13)
   \<and> field ''elevation_gain_m''
     (preprocess_parse_tcx example_float example_int ''c.tcx'' (climb_tcx [''100'', ''105'', ''102'', ''110'']))
     = Inr (PFloat 13)
   \<and> field ''elevation_gain_m''
     (parse_tcx example_float example_int ''raw/c.tcx'' (climb_tcx [''100'', ''100.35'']))
     = Inr (PFloat (3 / 10))"
proof -
  let ?doc = "climb_tcx [''100'', ''105'', ''102'', ''110'']"
  let ?tie = "climb_tcx [''100'', ''100.35'']"
  have "\<exists>m pts. parse_tcx example_float example_int ''raw/c.tcx'' ?doc = Inr (m, pts)"
    by (simp add: ns_eval)
  then obtain m pts where e1: "parse_tcx example_float example_int ''raw/c.tcx'' ?doc = Inr (m, pts)"
    by blast
  have "\<exists>m pts. preprocess_parse_tcx example_float example_int ''c.tcx'' ?doc = Inr (m, pts)"
    by (simp add: pt_eval)
  then obtain m' pts' where
    e2: "preprocess_parse_tcx example_float example_int ''c.tcx'' ?doc = Inr (m', pts')"
    by blast
  have "\<exists>m pts. parse_tcx example_float example_int ''raw/c.tcx'' ?tie = Inr (m, pts)"
    by (simp add: ns_eval)
  then obtain mt ptst where e3: "parse_tcx example_float example_int ''raw/c.tcx'' ?tie = Inr (mt, ptst)"
    by blast
  have t: "tcx_altitudes example_float (findall_desc ''Trackpoint'' ?doc) = [100, 105, 102, 110]"
    "tp_values example_float altitude_text (lap_trackpoints ?doc) = [100, 105, 102, 110]"
    "tcx_altitudes example_float (findall_desc ''Trackpoint'' ?tie) = [100, fl (2007 / 20)]"
    by (simp_all add: sample_eval)
  from elevation_gain_positive_deltas [where pf = example_float and pn = example_int
      and path = "''raw/c.tcx''" and xroot = ?doc and m = m and pts = pts
      and name = "''c.tcx''" and m' = m' and pts' = pts'] e1 e2 t
  have a: "dget m ''elevation_gain_m'' = PFloat 13" "dget m' ''elevation_gain_m'' = PFloat 13"
    by auto
  from elevation_gain_positive_deltas [where pf = example_float and pn = example_int
      and path = "''raw/c.tcx''" and xroot = ?tie and m = mt and pts = ptst] e3 t
  have b: "dget mt ''elevation_gain_m'' = PFloat (3 / 10)"
    by auto
  from a b show ?thesis
    by (simp add: field_def e1 e2 e3)
qed

subsection \<open>C7: average pace\<close>

lemma nonzero_distances_last:
  assumes "nonzero_distances rs \<noteq> []"
  shows "last (nonzero_distances rs) \<noteq> 0"
proof -
  from assms have "last (nonzero_distances rs) \<in> set (nonzero_distances rs)"
    by (rule last_in_set)
  then show ?thesis by (simp add: nonzero_distances_def)
qed

lemma fit_session_step_float:
  assumes "fit_session_step m v = Inr m'"
    and "dget m ''duration_s'' = PNone \<or> (\<exists>r. r \<noteq> 0 \<and> dget m ''duration_s'' = PFloat r)"
  shows "dget m' ''duration_s'' = PNone \<or> (\<exists>r. r \<noteq> 0 \<and> dget m' ''duration_s'' = PFloat r)"
proof -
  from assms(1) obtain m1 where
    m1: "session_sport v m = Inr m1" and m': "m' = session_calories v (session_duration v m1)"
    by (rule fit_session_step_InrE)
  have "dget m1 ''duration_s'' = dget m ''duration_s''"
    using session_sport_Inr [OF m1, of "''duration_s''"] by simp
  with assms(2) show ?thesis
    by (auto simp add: m' session_calories_def session_duration_def dget_update present_nz_def
        opt_float_def split: option.splits)
qed

lemma fit_session_step_int:
  assumes "fit_session_step m v = Inr m'"
    and "dget m ''calories'' = PNone \<or> (\<exists>r. r \<noteq> 0 \<and> dget m ''calories'' = PInt r)"
  shows "dget m' ''calories'' = PNone \<or> (\<exists>r. r \<noteq> 0 \<and> dget m' ''calories'' = PInt r)"
proof -
  from assms(1) obtain m1 where
    m1: "session_sport v m = Inr m1" and m': "m' = session_calories v (session_duration v m1)"
    by (rule fit_session_step_InrE)
  have "dget m1 ''calories'' = dget m ''calories''"
    using session_sport_Inr [OF m1, of "''calories''"] by simp
  with assms(2) show ?thesis
    by (auto simp add: m' session_calories_def session_duration_def dget_update present_nz_def
        opt_int_def split: option.splits)
qed

lemma fit_sessions_float:
  assumes "efold fit_session_step vs m = Inr m'"
    and "dget m ''duration_s'' = PNone \<or> (\<exists>r. r \<noteq> 0 \<and> dget m ''duration_s'' = PFloat r)"
  shows "dget m' ''duration_s'' = PNone \<or> (\<exists>r. r \<noteq> 0 \<and> dget m' ''duration_s'' = PFloat r)"
  using assms
proof (induction vs arbitrary: m)
  case Nil
  then show ?case by simp
next
  case (Cons v vs)
  from Cons.prems(1) obtain m1 where
    s: "fit_session_step m v = Inr m1" "efold fit_session_step vs m1 = Inr m'"
    by (auto split: sum.splits)
  from Cons.IH [OF s(2) fit_session_step_float [OF s(1) Cons.prems(2)]] show ?case .
qed

lemma fit_sessions_int:
  assumes "efold fit_session_step vs m = Inr m'"
    and "dget m ''calories'' = PNone \<or> (\<exists>r. r \<noteq> 0 \<and> dget m ''calories'' = PInt r)"
  shows "dget m' ''calories'' = PNone \<or> (\<exists>r. r \<noteq> 0 \<and> dget m' ''calories'' = PInt r)"
  using assms
proof (induction vs arbitrary: m)
  case Nil
  then show ?case by simp
next
  case (Cons v vs)
  from Cons.prems(1) obtain m1 where
    s: "fit_session_step m v = Inr m1" "efold fit_session_step vs m1 = Inr m'"
    by (auto split: sum.splits)
  from Cons.IH [OF s(2) fit_session_step_int [OF s(1) Cons.prems(2)]] show ?case .
qed

lemma fit_records_key:
  assumes "k \<notin> set [''cadence'', ''distance_m'', ''start_time'']"
  shows "dget (l_meta (foldl fit_record_step st rs)) k = dget (l_meta st) k"
  using assms by (induction rs arbitrary: st) (simp_all add: fit_record_step_meta)

lemma fit_pace_value:
  assumes "fit_pace m3 = Inr m" "dget m3 ''avg_pace_s'' = PNone"
    and "dget m3 ''duration_s'' = PNone \<or> (\<exists>r. r \<noteq> 0 \<and> dget m3 ''duration_s'' = PFloat r)"
    and "dget m3 ''distance_m'' = PNone \<or> (\<exists>r. r \<noteq> 0 \<and> dget m3 ''distance_m'' = PFloat r)"
  shows "dget m ''avg_pace_s'' =
           (case dget m3 ''duration_s'' of
              PFloat t \<Rightarrow> (case dget m3 ''distance_m'' of
                             PFloat d \<Rightarrow> PFloat (py_round1 (fl (t / fl (d / 1000)))) | _ \<Rightarrow> PNone)
            | _ \<Rightarrow> PNone)"
  using assms
  by (auto simp add: fit_pace_def dget_update split: if_splits pyval.splits)

lemma parse_fit_fields:
  assumes "parse_fit path fit = Inr (m, pts)"
  shows "(dget m ''duration_s'' = PNone \<or> (\<exists>r. r \<noteq> 0 \<and> dget m ''duration_s'' = PFloat r))
       \<and> (dget m ''distance_m'' = PNone \<or> (\<exists>r. r \<noteq> 0 \<and> dget m ''distance_m'' = PFloat r))
       \<and> (dget m ''calories'' = PNone \<or> (\<exists>r. r \<noteq> 0 \<and> dget m ''calories'' = PInt r))
       \<and> dget m ''avg_pace_s'' =
           (case dget m ''duration_s'' of
              PFloat t \<Rightarrow> (case dget m ''distance_m'' of
                             PFloat d \<Rightarrow> PFloat (py_round1 (fl (t / fl (d / 1000)))) | _ \<Rightarrow> PNone)
            | _ \<Rightarrow> PNone)"
proof -
  let ?st = "foldl fit_record_step (fit_start path) (records fit)"
  from assms obtain m1 where
    m1: "efold fit_session_step (sessions fit) (l_meta ?st) = Inr m1"
    and f: "fit_finish ?st m1 = Inr (m, pts)"
    by (rule parse_fit_InrE)
  from f obtain m3 where
    m3: "m3 = (if snd (l_elev ?st) \<noteq> 0
           then AList.update ''elevation_gain_m'' (PFloat (py_round1 (snd (l_elev ?st))))
                  (if l_hr_samples ?st \<noteq> []
                   then AList.update ''max_hr'' (PInt (py_max (l_hr_samples ?st)))
                          (AList.update ''avg_hr'' (PFloat (py_round1 (fl (mean (l_hr_samples ?st))))) m1)
                   else m1)
           else (if l_hr_samples ?st \<noteq> []
                   then AList.update ''max_hr'' (PInt (py_max (l_hr_samples ?st)))
                          (AList.update ''avg_hr'' (PFloat (py_round1 (fl (mean (l_hr_samples ?st))))) m1)
                   else m1))"
    and m: "fit_pace m3 = Inr m"
    by (rule fit_finish_InrE)
  have k3: "dget m3 k = dget m1 k" if "k \<notin> set [''elevation_gain_m'', ''max_hr'', ''avg_hr'']" for k
    using that by (simp add: m3 dget_update)
  have s0: "dget (l_meta ?st) ''duration_s'' = PNone" "dget (l_meta ?st) ''calories'' = PNone"
    "dget (l_meta ?st) ''avg_pace_s'' = PNone"
    by (simp_all add: fit_records_key fit_start_meta)
  have d0: "dget (l_meta ?st) ''distance_m'' = PNone
      \<or> (\<exists>r. r \<noteq> 0 \<and> dget (l_meta ?st) ''distance_m'' = PFloat r)"
    using nonzero_distances_last [of "records fit"]
    by (simp add: fit_records_distance fit_start_meta)
  have du: "dget m3 ''duration_s'' = PNone \<or> (\<exists>r. r \<noteq> 0 \<and> dget m3 ''duration_s'' = PFloat r)"
    using fit_sessions_float [OF m1] s0(1) by (simp add: k3)
  have ca: "dget m3 ''calories'' = PNone \<or> (\<exists>r. r \<noteq> 0 \<and> dget m3 ''calories'' = PInt r)"
    using fit_sessions_int [OF m1] s0(2) by (simp add: k3)
  have di: "dget m3 ''distance_m'' = PNone \<or> (\<exists>r. r \<noteq> 0 \<and> dget m3 ''distance_m'' = PFloat r)"
    using fit_sessions_other [OF m1, of "''distance_m''"] d0 by (simp add: k3)
  have pa: "dget m3 ''avg_pace_s'' = PNone"
    using fit_sessions_other [OF m1, of "''avg_pace_s''"] s0(3) by (simp add: k3)
  have same: "dget m ''duration_s'' = dget m3 ''duration_s''"
    "dget m ''distance_m'' = dget m3 ''distance_m''" "dget m ''calories'' = dget m3 ''calories''"
    using fit_pace_other [OF m] by simp_all
  show ?thesis
    unfolding same using fit_pace_value [OF m pa du di] du di ca by simp
qed

lemma parse_gpx_InrE:
  assumes "parse_gpx path gpx = Inr (m, pts)"
  obtains sport_name stamp where
    "m = [(''activityId'', PStr (basename path)), (''sport'', PStr sport_name),
          (''start_time'', PStr stamp), (''duration_s'', PNone),
          (''distance_m'', PFloat (length_2d gpx)), (''calories'', PNone), (''avg_hr'', PNone),
          (''max_hr'', PNone), (''elevation_gain_m'', PNone), (''avg_pace_s'', PNone)]"
  using assms
  by (auto simp add: parse_gpx_def Let_def ebind_def split: list.splits sum.splits option.splits)

lemma pace_values: "py_round1 (fl (3600 / fl (10000 / 1000))) = 360"
  "py_round1 (fl (2007 / 2 / fl (10000 / 1000))) = 1003 / 10"
  "py_round1 (fl (1000 / fl (3000 / 1000))) = 3333 / 10"
  by code_simp+

text \<open>
  \<^verbatim>\<open>parse_tcx\<close> of \<^verbatim>\<open>preprocess_tcx.py\<close> does not round the pace: 1000 s over 3000 m
  give 1000/3, where rounding to one decimal gives 333.3.
\<close>

theorem preprocess_pace_unrounded_counterexample:
  "field ''duration_s'' (preprocess_parse_tcx example_float example_int ''p.tcx'' (lap_tcx ''1000'' ''3000''))
     = Inr (PFloat 1000)
   \<and> field ''distance_m'' (preprocess_parse_tcx example_float example_int ''p.tcx'' (lap_tcx ''1000'' ''3000''))
     = Inr (PFloat 3000)
   \<and> field ''avg_pace_s'' (preprocess_parse_tcx example_float example_int ''p.tcx'' (lap_tcx ''1000'' ''3000''))
     = Inr (PFloat (1000 / 3))
   \<and> py_round1 (fl (1000 / fl (3000 / 1000))) = 3333 / 10"
proof -
  have "field ''duration_s'' (preprocess_parse_tcx example_float example_int ''p.tcx'' (lap_tcx ''1000'' ''3000''))
     = Inr (PFloat 1000)"
    by (simp add: pt_eval)
  moreover have "field ''distance_m'' (preprocess_parse_tcx example_float example_int ''p.tcx'' (lap_tcx ''1000'' ''3000''))
     = Inr (PFloat 3000)"
    by (simp add: pt_eval)
  moreover have "field ''avg_pace_s'' (preprocess_parse_tcx example_float example_int ''p.tcx'' (lap_tcx ''1000'' ''3000''))
     = Inr (PFloat (1000 / 3))"
    by (simp add: pt_eval)
  ultimately show ?thesis using pace_values(3) by blast
qed

text \<open>
  C7 (amended). In a record of \<^verbatim>\<open>parse_tcx\<close> of \<^verbatim>\<open>normalise_strava.py\<close>,
  \<^verbatim>\<open>avg_pace_s\<close> is \<^verbatim>\<open>duration_s / (distance_m / 1000)\<close> of the record's own two
  fields, computed in floats and rounded to one decimal, when the distance and the
  duration are both not zero, and absent otherwise. In a record of \<^verbatim>\<open>parse_tcx\<close> of
  \<^verbatim>\<open>preprocess_tcx.py\<close> it is that quotient, not rounded, when the distance is
  positive, and absent otherwise. In a record of \<^verbatim>\<open>parse_fit\<close> the distance and the
  duration are absent or not zero, and \<^verbatim>\<open>avg_pace_s\<close> is the rounded float quotient
  when both are present and absent otherwise. In a record of \<^verbatim>\<open>parse_gpx\<close> the
  duration and the pace are absent. 3600 s over 10000 m give 360; 1003.5 s over 10000 m
  give 100.3, because the float quotient lies below 100.35. (The statement is about the
  fields of the record. \<^verbatim>\<open>normalise_strava.py\<close> takes the two totals of a lap from
  attributes of the \<^verbatim>\<open>Lap\<close> element, and the example document below carries them
  there.)
\<close>

theorem average_pace:
  "(parse_tcx pf pn path xroot = Inr (m, pts) \<longrightarrow>
      (\<exists>t d. dget m ''duration_s'' = PFloat t \<and> dget m ''distance_m'' = PFloat d
         \<and> dget m ''avg_pace_s'' =
             (if d \<noteq> 0 \<and> t \<noteq> 0 then PFloat (py_round1 (fl (t / fl (d / 1000)))) else PNone)))
   \<and> (preprocess_parse_tcx pf pn name xroot = Inr (m1, pts1) \<longrightarrow>
      (\<exists>t d. dget m1 ''duration_s'' = PFloat t \<and> dget m1 ''distance_m'' = PFloat d
         \<and> dget m1 ''avg_pace_s'' = (if 0 < d then PFloat (t / (d / 1000)) else PNone)))
   \<and> (parse_fit path fit = Inr (m2, pts2) \<longrightarrow>
        (dget m2 ''duration_s'' = PNone \<or> (\<exists>t. t \<noteq> 0 \<and> dget m2 ''duration_s'' = PFloat t))
      \<and> (dget m2 ''distance_m'' = PNone \<or> (\<exists>d. d \<noteq> 0 \<and> dget m2 ''distance_m'' = PFloat d))
      \<and> dget m2 ''avg_pace_s'' =
           (case dget m2 ''duration_s'' of
              PFloat t \<Rightarrow> (case dget m2 ''distance_m'' of
                             PFloat d \<Rightarrow> PFloat (py_round1 (fl (t / fl (d / 1000)))) | _ \<Rightarrow> PNone)
            | _ \<Rightarrow> PNone))
   \<and> (parse_gpx path gpx = Inr (m3, pts3) \<longrightarrow>
        dget m3 ''duration_s'' = PNone \<and> dget m3 ''avg_pace_s'' = PNone)
   \<and> py_round1 (fl (3600 / fl (10000 / 1000))) = 360
   \<and> py_round1 (fl (2007 / 2 / fl (10000 / 1000))) = 1003 / 10"
proof (intro conjI impI)
  assume "parse_tcx pf pn path xroot = Inr (m, pts)"
  then show "\<exists>t d. dget m ''duration_s'' = PFloat t \<and> dget m ''distance_m'' = PFloat d
         \<and> dget m ''avg_pace_s'' =
             (if d \<noteq> 0 \<and> t \<noteq> 0 then PFloat (py_round1 (fl (t / fl (d / 1000)))) else PNone)"
    by (elim parse_tcx_InrE) (simp add: dget_def)
next
  assume "preprocess_parse_tcx pf pn name xroot = Inr (m1, pts1)"
  then show "\<exists>t d. dget m1 ''duration_s'' = PFloat t \<and> dget m1 ''distance_m'' = PFloat d
         \<and> dget m1 ''avg_pace_s'' = (if 0 < d then PFloat (t / (d / 1000)) else PNone)"
    by (elim preprocess_parse_tcx_InrE) (simp add: dget_def)
next
  assume a: "parse_fit path fit = Inr (m2, pts2)"
  from parse_fit_fields [OF a]
  show "dget m2 ''duration_s'' = PNone \<or> (\<exists>t. t \<noteq> 0 \<and> dget m2 ''duration_s'' = PFloat t)"
    by blast
  from parse_fit_fields [OF a]
  show "dget m2 ''distance_m'' = PNone \<or> (\<exists>d. d \<noteq> 0 \<and> dget m2 ''distance_m'' = PFloat d)"
    by blast
  from parse_fit_fields [OF a]
  show "dget m2 ''avg_pace_s'' =
           (case dget m2 ''duration_s'' of
              PFloat t \<Rightarrow> (case dget m2 ''distance_m'' of
                             PFloat d \<Rightarrow> PFloat (py_round1 (fl (t / fl (d / 1000)))) | _ \<Rightarrow> PNone)
            | _ \<Rightarrow> PNone)"
    by blast
next
  assume a: "parse_gpx path gpx = Inr (m3, pts3)"
  from a show "dget m3 ''duration_s'' = PNone"
    by (elim parse_gpx_InrE) (simp add: dget_def)
  from a show "dget m3 ''avg_pace_s'' = PNone"
    by (elim parse_gpx_InrE) (simp add: dget_def)
next
  show "py_round1 (fl (3600 / fl (10000 / 1000))) = 360"
    by (rule pace_values)
next
  show "py_round1 (fl (2007 / 2 / fl (10000 / 1000))) = 1003 / 10"
    by (rule pace_values)
qed

theorem average_pace_witness:
  "field ''avg_pace_s'' (parse_tcx example_float example_int ''raw/p.tcx'' (attr_lap_tcx ''3600'' ''10000''))
     = Inr (PFloat 360)
   \<and> field ''avg_pace_s'' (parse_tcx example_float example_int ''raw/p.tcx'' (attr_lap_tcx ''1003.5'' ''10000''))
     = Inr (PFloat (1003 / 10))
   \<and> field ''avg_pace_s'' (parse_tcx example_float example_int ''raw/p.tcx'' (attr_lap_tcx ''3600'' ''0''))
     = Inr PNone
   \<and> field ''avg_pace_s'' (preprocess_parse_tcx example_float example_int ''p.tcx'' (lap_tcx ''3600'' ''10000''))
     = Inr (PFloat 360)
   \<and> field ''avg_pace_s'' (preprocess_parse_tcx example_float example_int ''p.tcx'' (lap_tcx ''3600'' ''0''))
     = Inr PNone
   \<and> field ''avg_pace_s'' (parse_fit ''raw/p.fit'' pace_fit) = Inr (PFloat 360)
   \<and> field ''avg_pace_s'' (parse_gpx ''raw/ride.gpx'' two_point_gpx) = Inr PNone"
proof -
  have "\<exists>m pts. parse_tcx example_float example_int ''raw/p.tcx'' (attr_lap_tcx ''3600'' ''10000'') = Inr (m, pts)
      \<and> dget m ''duration_s'' = PFloat 3600 \<and> dget m ''distance_m'' = PFloat 10000"
    by (simp add: ns_eval fl_values)
  then obtain m pts where
    e1: "parse_tcx example_float example_int ''raw/p.tcx'' (attr_lap_tcx ''3600'' ''10000'') = Inr (m, pts)"
      "dget m ''duration_s'' = PFloat 3600" "dget m ''distance_m'' = PFloat 10000"
    by blast
  have "\<exists>m pts. parse_tcx example_float example_int ''raw/p.tcx'' (attr_lap_tcx ''1003.5'' ''10000'') = Inr (m, pts)
      \<and> dget m ''duration_s'' = PFloat (2007 / 2) \<and> dget m ''distance_m'' = PFloat 10000"
    by (simp add: ns_eval fl_values)
  then obtain mt ptst where
    e1t: "parse_tcx example_float example_int ''raw/p.tcx'' (attr_lap_tcx ''1003.5'' ''10000'') = Inr (mt, ptst)"
      "dget mt ''duration_s'' = PFloat (2007 / 2)" "dget mt ''distance_m'' = PFloat 10000"
    by blast
  have "\<exists>m pts. parse_tcx example_float example_int ''raw/p.tcx'' (attr_lap_tcx ''3600'' ''0'') = Inr (m, pts)
      \<and> dget m ''duration_s'' = PFloat 3600 \<and> dget m ''distance_m'' = PFloat 0"
    by (simp add: ns_eval fl_values)
  then obtain mz ptsz where
    e2: "parse_tcx example_float example_int ''raw/p.tcx'' (attr_lap_tcx ''3600'' ''0'') = Inr (mz, ptsz)"
      "dget mz ''duration_s'' = PFloat 3600" "dget mz ''distance_m'' = PFloat 0"
    by blast
  have "\<exists>m pts. preprocess_parse_tcx example_float example_int ''p.tcx'' (lap_tcx ''3600'' ''10000'') = Inr (m, pts)
      \<and> dget m ''duration_s'' = PFloat 3600 \<and> dget m ''distance_m'' = PFloat 10000"
    by (simp add: pt_eval)
  then obtain m1 pts1 where
    e3: "preprocess_parse_tcx example_float example_int ''p.tcx'' (lap_tcx ''3600'' ''10000'') = Inr (m1, pts1)"
      "dget m1 ''duration_s'' = PFloat 3600" "dget m1 ''distance_m'' = PFloat 10000"
    by blast
  have "\<exists>m pts. preprocess_parse_tcx example_float example_int ''p.tcx'' (lap_tcx ''3600'' ''0'') = Inr (m, pts)
      \<and> dget m ''duration_s'' = PFloat 3600 \<and> dget m ''distance_m'' = PFloat 0"
    by (simp add: pt_eval)
  then obtain m1z pts1z where
    e4: "preprocess_parse_tcx example_float example_int ''p.tcx'' (lap_tcx ''3600'' ''0'') = Inr (m1z, pts1z)"
      "dget m1z ''duration_s'' = PFloat 3600" "dget m1z ''distance_m'' = PFloat 0"
    by blast
  have "\<exists>m pts. parse_fit ''raw/p.fit'' pace_fit = Inr (m, pts)
      \<and> dget m ''duration_s'' = PFloat 3600 \<and> dget m ''distance_m'' = PFloat 10000"
    by (simp add: fit_eval pace_fit_def sport_eval str_eval AList.update.simps)
  then obtain m2 pts2 where
    e5: "parse_fit ''raw/p.fit'' pace_fit = Inr (m2, pts2)"
      "dget m2 ''duration_s'' = PFloat 3600" "dget m2 ''distance_m'' = PFloat 10000"
    by blast
  have "\<exists>m pts. parse_gpx ''raw/ride.gpx'' two_point_gpx = Inr (m, pts)"
    by (simp add: parse_gpx_def two_point_gpx_def Let_def ebind_def sport_eval str_eval)
  then obtain m3 pts3 where e6: "parse_gpx ''raw/ride.gpx'' two_point_gpx = Inr (m3, pts3)"
    by blast
  from average_pace [where pf = example_float and pn = example_int and path = "''raw/p.tcx''"
      and xroot = "attr_lap_tcx ''3600'' ''10000''" and m = m and pts = pts] e1
  have a: "dget m ''avg_pace_s'' = PFloat 360"
    by auto
  from average_pace [where pf = example_float and pn = example_int and path = "''raw/p.tcx''"
      and xroot = "attr_lap_tcx ''1003.5'' ''10000''" and m = mt and pts = ptst] e1t(1)
  obtain t d where
    td: "dget mt ''duration_s'' = PFloat t" "dget mt ''distance_m'' = PFloat d"
      "dget mt ''avg_pace_s'' =
         (if d \<noteq> 0 \<and> t \<noteq> 0 then PFloat (py_round1 (fl (t / fl (d / 1000)))) else PNone)"
    by blast
  from td(1,2) e1t(2,3) have "t = 2007 / 2" "d = 10000"
    by simp_all
  with td(3) have "dget mt ''avg_pace_s'' = PFloat (py_round1 (fl (2007 / 2 / fl (10000 / 1000))))"
    by simp
  then have at: "dget mt ''avg_pace_s'' = PFloat (1003 / 10)"
    unfolding pace_values .
  from average_pace [where pf = example_float and pn = example_int and name = "''p.tcx''"
      and xroot = "lap_tcx ''3600'' ''10000''" and ?m1.0 = m1 and ?pts1.0 = pts1] e3
  have a1: "dget m1 ''avg_pace_s'' = PFloat 360"
    by auto
  from average_pace [where pf = example_float and pn = example_int and path = "''raw/p.tcx''"
      and xroot = "attr_lap_tcx ''3600'' ''0''" and m = mz and pts = ptsz] e2
  have b: "dget mz ''avg_pace_s'' = PNone"
    by auto
  from average_pace [where pf = example_float and pn = example_int and name = "''p.tcx''"
      and xroot = "lap_tcx ''3600'' ''0''" and ?m1.0 = m1z and ?pts1.0 = pts1z] e4
  have b1: "dget m1z ''avg_pace_s'' = PNone"
    by auto
  from average_pace [where path = "''raw/p.fit''" and fit = pace_fit and ?m2.0 = m2 and ?pts2.0 = pts2] e5
  have c: "dget m2 ''avg_pace_s'' = PFloat 360"
    by auto
  from average_pace [where path = "''raw/ride.gpx''" and gpx = two_point_gpx and ?m3.0 = m3 and ?pts3.0 = pts3] e6
  have d: "dget m3 ''avg_pace_s'' = PNone"
    by auto
  from a at a1 b b1 c d show ?thesis
    by (simp add: field_def e1 e1t e2 e3 e4 e5 e6)
qed

subsection \<open>C3: absent fields\<close>












end
